theory Spec2Isabelle
  imports Complex_Main "HOL-Library.Sublist"
begin

section \<open>Python values\<close>

text \<open>
  A Python \<open>str\<close> is modelled as a \<open>string\<close>, one \<open>char\<close> for each character of the
  Python string, so that \<open>len\<close> is \<open>length\<close> and \<open>s[:n]\<close> is \<open>take n s\<close>.

  A Python \<open>float\<close> is a finite value, an infinity or NaN. Only comparisons are computed on
  floats in the code modelled here, and a comparison of two floats is exact, so a finite
  float is modelled by the real number it denotes.
\<close>

datatype pyfloat = Finite real | PosInf | NegInf | NaN

text \<open>Python's \<open>a < b\<close> on floats: false as soon as one side is NaN.\<close>

fun float_lt :: "pyfloat \<Rightarrow> pyfloat \<Rightarrow> bool" where
  "float_lt NaN _ = False"
| "float_lt _ NaN = False"
| "float_lt (Finite a) (Finite b) = (a < b)"
| "float_lt (Finite a) PosInf = True"
| "float_lt (Finite a) NegInf = False"
| "float_lt PosInf _ = False"
| "float_lt NegInf (Finite b) = True"
| "float_lt NegInf PosInf = True"
| "float_lt NegInf NegInf = False"

definition float_gt :: "pyfloat \<Rightarrow> pyfloat \<Rightarrow> bool" where
  "float_gt a b = float_lt b a"

definition float_le :: "pyfloat \<Rightarrow> pyfloat \<Rightarrow> bool" where
  "float_le a b = (float_lt a b \<or> (a \<noteq> NaN \<and> a = b))"

text \<open>
  The builtins \<open>max(a, b)\<close> and \<open>min(a, b)\<close>: the first argument is kept unless the second
  compares strictly greater (smaller).
\<close>

definition py_max :: "pyfloat \<Rightarrow> pyfloat \<Rightarrow> pyfloat" where
  "py_max a b = (if float_gt b a then b else a)"

definition py_min :: "pyfloat \<Rightarrow> pyfloat \<Rightarrow> pyfloat" where
  "py_min a b = (if float_lt b a then b else a)"

text \<open>
  A value as \<open>json.loads\<close> returns it and as a Firestore document stores it. A \<open>dict\<close> is
  an association list in insertion order; a lookup takes the first binding of the key.
\<close>

datatype json =
    JNull
  | JBool bool
  | JInt int
  | JFloat pyfloat
  | JStr string
  | JList "json list"
  | JDict "(string \<times> json) list"

type_synonym pydict = "(string \<times> json) list"

text \<open>\<open>d.get(key, default)\<close>\<close>

definition dict_get :: "pydict \<Rightarrow> string \<Rightarrow> json \<Rightarrow> json" where
  "dict_get d k dflt = (case map_of d k of None \<Rightarrow> dflt | Some v \<Rightarrow> v)"

text \<open>\<open>str(n)\<close> of an integer.\<close>

definition digit_char :: "nat \<Rightarrow> char" where
  "digit_char d = ''0123456789'' ! d"

function str_nat :: "nat \<Rightarrow> string" where
  "str_nat n = (if n < 10 then [digit_char n] else str_nat (n div 10) @ [digit_char (n mod 10)])"
  by pat_completeness auto
termination
  by (relation "measure id") auto

definition str_int :: "int \<Rightarrow> string" where
  "str_int i = (if i < 0 then CHR ''-'' # str_nat (nat (- i)) else str_nat (nat i))"

text \<open>
  The text an f-string puts for a value. The \<open>repr\<close> of a float and of a container is
  Python's own formatting and is taken as the parameter \<open>repr\<close>.
\<close>

definition py_str :: "(json \<Rightarrow> string) \<Rightarrow> json \<Rightarrow> string" where
  "py_str repr v =
     (case v of
        JStr s \<Rightarrow> s
      | JNull \<Rightarrow> ''None''
      | JBool b \<Rightarrow> (if b then ''True'' else ''False'')
      | JInt i \<Rightarrow> str_int i
      | _ \<Rightarrow> repr v)"

text \<open>\<open>xs[:k]\<close> for an integer \<open>k\<close>: a negative \<open>k\<close> counts from the end.\<close>

definition slice_to :: "'a list \<Rightarrow> int \<Rightarrow> 'a list" where
  "slice_to xs k =
     (if 0 \<le> k then take (nat k) xs else take (nat (int (length xs) + k)) xs)"

section \<open>The chunker (api/rag.py, create_text_chunks)\<close>

text \<open>
  A paragraph as the OCR stage stores it: a dict with the keys \<open>text\<close>, \<open>page\<close> and
  \<open>confidence\<close>, each of which may be missing. A clause is a dict of stored values.
\<close>

record paragraph_dict =
  p_text :: "string option"
  p_page :: "int option"
  p_confidence :: "pyfloat option"

record chunk =
  ch_text :: string
  ch_type :: string
  ch_metadata :: pydict

definition nl :: string where
  "nl = [CHR 0x0A]"

definition document_chunk :: "string \<Rightarrow> chunk" where
  "document_chunk raw_text =
     \<lparr> ch_text = take 2000 raw_text,
       ch_type = ''document'',
       ch_metadata = [(''chunk_type'', JStr ''full_document''),
                      (''length'', JInt (int (length raw_text)))] \<rparr>"

definition clause_chunk :: "(json \<Rightarrow> string) \<Rightarrow> pydict \<Rightarrow> chunk" where
  "clause_chunk repr clause =
     \<lparr> ch_text =
         ''Clause Type: '' @ py_str repr (dict_get clause ''clause_type'' (JStr [])) @ nl @ nl @
         ''Original Text: '' @ py_str repr (dict_get clause ''original_text'' (JStr [])) @ nl @ nl @
         ''Plain Language: '' @ py_str repr (dict_get clause ''plain_language'' (JStr [])) @ nl @ nl @
         ''Risk: '' @ py_str repr (dict_get clause ''risk_level'' (JStr [])) @ '' - '' @
         py_str repr (dict_get clause ''risk_reason'' (JStr [])),
       ch_type = ''clause'',
       ch_metadata = [(''chunk_type'', JStr ''clause''),
                      (''clause_type'', dict_get clause ''clause_type'' (JStr [])),
                      (''risk_level'', dict_get clause ''risk_level'' (JStr [])),
                      (''clause_id'', dict_get clause ''id'' (JStr []))] \<rparr>"

text \<open>\<open>paragraph.get("text", "")\<close>\<close>

definition paragraph_text :: "paragraph_dict \<Rightarrow> string" where
  "paragraph_text p = (case p_text p of None \<Rightarrow> [] | Some t \<Rightarrow> t)"

definition paragraph_chunk :: "nat \<Rightarrow> paragraph_dict \<Rightarrow> chunk" where
  "paragraph_chunk i p =
     \<lparr> ch_text = paragraph_text p,
       ch_type = ''paragraph'',
       ch_metadata = [(''chunk_type'', JStr ''paragraph''),
                      (''paragraph_index'', JInt (int i)),
                      (''page'', JInt (case p_page p of None \<Rightarrow> 1 | Some n \<Rightarrow> n)),
                      (''confidence'',
                         JFloat (case p_confidence p of None \<Rightarrow> Finite 0 | Some c \<Rightarrow> c))] \<rparr>"

text \<open>The loop over the clauses: every clause appends one chunk.\<close>

fun clause_loop :: "(json \<Rightarrow> string) \<Rightarrow> chunk list \<Rightarrow> pydict list \<Rightarrow> chunk list" where
  "clause_loop repr chunks [] = chunks"
| "clause_loop repr chunks (clause # rest) =
     clause_loop repr (chunks @ [clause_chunk repr clause]) rest"

text \<open>
  The loop over \<open>enumerate(paragraphs[:10])\<close>, given as the list of (index, paragraph)
  pairs: a paragraph appends a chunk only if its text is longer than 100 characters.
\<close>

fun paragraph_loop :: "chunk list \<Rightarrow> (nat \<times> paragraph_dict) list \<Rightarrow> chunk list" where
  "paragraph_loop chunks [] = chunks"
| "paragraph_loop chunks ((i, p) # rest) =
     (if length (paragraph_text p) > 100
      then paragraph_loop (chunks @ [paragraph_chunk i p]) rest
      else paragraph_loop chunks rest)"

definition create_text_chunks ::
  "(json \<Rightarrow> string) \<Rightarrow> string \<Rightarrow> paragraph_dict list \<Rightarrow> pydict list \<Rightarrow> chunk list" where
  "create_text_chunks repr raw_text paragraphs clauses =
     (let chunks = [document_chunk raw_text];
          chunks = clause_loop repr chunks clauses
      in if length paragraphs > 0
         then paragraph_loop chunks (enumerate 0 (take 10 paragraphs))
         else chunks)"

section \<open>Exceptions\<close>

text \<open>
  What a Python call raises. \<open>HTTPException\<close> carries the status code and the detail;
  \<open>ExternalError\<close> is an exception of an external service (generation, embedding), with
  its message.
\<close>

datatype py_exception =
    HTTPException nat string
  | AttributeError
  | TypeError
  | ValueError
  | KeyError
  | OverflowError
  | ValidationError
  | NotFound
  | ExternalError string

section \<open>The data model (models/document.py)\<close>

datatype RiskLevel = HIGH | MEDIUM | LOW

fun RiskLevel_value :: "RiskLevel \<Rightarrow> string" where
  "RiskLevel_value HIGH = ''high''"
| "RiskLevel_value MEDIUM = ''medium''"
| "RiskLevel_value LOW = ''low''"

fun RiskLevel_name :: "RiskLevel \<Rightarrow> string" where
  "RiskLevel_name HIGH = ''HIGH''"
| "RiskLevel_name MEDIUM = ''MEDIUM''"
| "RiskLevel_name LOW = ''LOW''"

definition RiskLevel_members :: "RiskLevel list" where
  "RiskLevel_members = [HIGH, MEDIUM, LOW]"

datatype ProcessingStatus =
  UPLOADED | PROCESSING | OCR_COMPLETE | CLASSIFIED | ANALYZED | COMPLETE | FAILED

fun ProcessingStatus_value :: "ProcessingStatus \<Rightarrow> string" where
  "ProcessingStatus_value UPLOADED = ''uploaded''"
| "ProcessingStatus_value PROCESSING = ''processing''"
| "ProcessingStatus_value OCR_COMPLETE = ''ocr_complete''"
| "ProcessingStatus_value CLASSIFIED = ''classified''"
| "ProcessingStatus_value ANALYZED = ''analyzed''"
| "ProcessingStatus_value COMPLETE = ''complete''"
| "ProcessingStatus_value FAILED = ''failed''"

text \<open>The members of \<open>ClauseType\<close>, in the order of the class body.\<close>

datatype ClauseType =
    PARTIES_INVOLVED
  | DEFINITIONS
  | PURPOSE_SCOPE
  | PAYMENT_TERMS
  | FEES_CHARGES
  | PENALTIES
  | INTEREST
  | SECURITY_DEPOSIT
  | REFUND_POLICY
  | CONTRACT_DURATION
  | TERMINATION
  | AUTO_RENEWAL
  | EXIT_FEES
  | WARRANTIES
  | OBLIGATIONS
  | LIMITATION_LIABILITY
  | INDEMNIFICATION
  | GOVERNING_LAW
  | DISPUTE_RESOLUTION
  | DATA_OWNERSHIP
  | DATA_SHARING
  | CONFIDENTIALITY
  | NON_COMPETE
  | IP_RIGHTS
  | AMENDMENTS
  | SEVERABILITY

fun ClauseType_value :: "ClauseType \<Rightarrow> string" where
  "ClauseType_value PARTIES_INVOLVED = ''parties_involved''"
| "ClauseType_value DEFINITIONS = ''definitions''"
| "ClauseType_value PURPOSE_SCOPE = ''purpose_scope''"
| "ClauseType_value PAYMENT_TERMS = ''payment_terms''"
| "ClauseType_value FEES_CHARGES = ''fees_charges''"
| "ClauseType_value PENALTIES = ''penalties''"
| "ClauseType_value INTEREST = ''interest''"
| "ClauseType_value SECURITY_DEPOSIT = ''security_deposit''"
| "ClauseType_value REFUND_POLICY = ''refund_policy''"
| "ClauseType_value CONTRACT_DURATION = ''contract_duration''"
| "ClauseType_value TERMINATION = ''termination''"
| "ClauseType_value AUTO_RENEWAL = ''auto_renewal''"
| "ClauseType_value EXIT_FEES = ''exit_fees''"
| "ClauseType_value WARRANTIES = ''warranties''"
| "ClauseType_value OBLIGATIONS = ''obligations''"
| "ClauseType_value LIMITATION_LIABILITY = ''limitation_liability''"
| "ClauseType_value INDEMNIFICATION = ''indemnification''"
| "ClauseType_value GOVERNING_LAW = ''governing_law''"
| "ClauseType_value DISPUTE_RESOLUTION = ''dispute_resolution''"
| "ClauseType_value DATA_OWNERSHIP = ''data_ownership''"
| "ClauseType_value DATA_SHARING = ''data_sharing''"
| "ClauseType_value CONFIDENTIALITY = ''confidentiality''"
| "ClauseType_value NON_COMPETE = ''non_compete''"
| "ClauseType_value IP_RIGHTS = ''ip_rights''"
| "ClauseType_value AMENDMENTS = ''amendments''"
| "ClauseType_value SEVERABILITY = ''severability''"

fun ClauseType_name :: "ClauseType \<Rightarrow> string" where
  "ClauseType_name PARTIES_INVOLVED = ''PARTIES_INVOLVED''"
| "ClauseType_name DEFINITIONS = ''DEFINITIONS''"
| "ClauseType_name PURPOSE_SCOPE = ''PURPOSE_SCOPE''"
| "ClauseType_name PAYMENT_TERMS = ''PAYMENT_TERMS''"
| "ClauseType_name FEES_CHARGES = ''FEES_CHARGES''"
| "ClauseType_name PENALTIES = ''PENALTIES''"
| "ClauseType_name INTEREST = ''INTEREST''"
| "ClauseType_name SECURITY_DEPOSIT = ''SECURITY_DEPOSIT''"
| "ClauseType_name REFUND_POLICY = ''REFUND_POLICY''"
| "ClauseType_name CONTRACT_DURATION = ''CONTRACT_DURATION''"
| "ClauseType_name TERMINATION = ''TERMINATION''"
| "ClauseType_name AUTO_RENEWAL = ''AUTO_RENEWAL''"
| "ClauseType_name EXIT_FEES = ''EXIT_FEES''"
| "ClauseType_name WARRANTIES = ''WARRANTIES''"
| "ClauseType_name OBLIGATIONS = ''OBLIGATIONS''"
| "ClauseType_name LIMITATION_LIABILITY = ''LIMITATION_LIABILITY''"
| "ClauseType_name INDEMNIFICATION = ''INDEMNIFICATION''"
| "ClauseType_name GOVERNING_LAW = ''GOVERNING_LAW''"
| "ClauseType_name DISPUTE_RESOLUTION = ''DISPUTE_RESOLUTION''"
| "ClauseType_name DATA_OWNERSHIP = ''DATA_OWNERSHIP''"
| "ClauseType_name DATA_SHARING = ''DATA_SHARING''"
| "ClauseType_name CONFIDENTIALITY = ''CONFIDENTIALITY''"
| "ClauseType_name NON_COMPETE = ''NON_COMPETE''"
| "ClauseType_name IP_RIGHTS = ''IP_RIGHTS''"
| "ClauseType_name AMENDMENTS = ''AMENDMENTS''"
| "ClauseType_name SEVERABILITY = ''SEVERABILITY''"

definition ClauseType_members :: "ClauseType list" where
  "ClauseType_members =
     [PARTIES_INVOLVED, DEFINITIONS, PURPOSE_SCOPE, PAYMENT_TERMS,
      FEES_CHARGES, PENALTIES, INTEREST, SECURITY_DEPOSIT,
      REFUND_POLICY, CONTRACT_DURATION, TERMINATION, AUTO_RENEWAL,
      EXIT_FEES, WARRANTIES, OBLIGATIONS, LIMITATION_LIABILITY,
      INDEMNIFICATION, GOVERNING_LAW, DISPUTE_RESOLUTION, DATA_OWNERSHIP,
      DATA_SHARING, CONFIDENTIALITY, NON_COMPETE, IP_RIGHTS,
      AMENDMENTS, SEVERABILITY]"

text \<open>
  \<open>E(value)\<close> on an \<open>Enum\<close> class \<open>E\<close> looks the member up by its value and raises
  \<open>ValueError\<close> when no member has it; \<open>E.NAME\<close> looks the member up by its name and raises
  \<open>AttributeError\<close> when the class has no such member. The members of the two enums here
  are strings, so a value that is not a string equals none of them.
\<close>

definition enum_call :: "('e \<Rightarrow> string) \<Rightarrow> 'e list \<Rightarrow> json \<Rightarrow> py_exception + 'e" where
  "enum_call value_of members v =
     (case v of
        JStr s \<Rightarrow>
          (case find (\<lambda>m. value_of m = s) members of
             Some m \<Rightarrow> Inr m
           | None \<Rightarrow> Inl ValueError)
      | _ \<Rightarrow> Inl ValueError)"

definition enum_attr :: "('e \<Rightarrow> string) \<Rightarrow> 'e list \<Rightarrow> string \<Rightarrow> py_exception + 'e" where
  "enum_attr name_of members name =
     (case find (\<lambda>m. name_of m = name) members of
        Some m \<Rightarrow> Inr m
      | None \<Rightarrow> Inl AttributeError)"

text \<open>\<open>v in strs\<close> for a list of strings.\<close>

definition py_in :: "json \<Rightarrow> string list \<Rightarrow> bool" where
  "py_in v strs = (case v of JStr s \<Rightarrow> s \<in> set strs | _ \<Rightarrow> False)"

record Citation =
  cit_source :: string
  cit_reference :: string
  cit_url :: "string option"

record ClauseAnalysis =
  ca_id :: string
  ca_clause_type :: ClauseType
  ca_original_text :: string
  ca_plain_language :: string
  ca_risk_level :: RiskLevel
  ca_risk_reason :: string
  ca_recommendations :: "string list"
  ca_citations :: "Citation list"
  ca_confidence_score :: "pyfloat option"
  ca_start_position :: "int option"
  ca_end_position :: "int option"

section \<open>Overall risk (api/vertex\_ai.py, calculate\_overall\_risk)\<close>

text \<open>The dict \<open>risk_scores\<close>; indexing it with a missing key raises \<open>KeyError\<close>.\<close>

definition risk_scores :: "(string \<times> int) list" where
  "risk_scores = [(''high'', 3), (''medium'', 2), (''low'', 1)]"

fun sum_risk_scores :: "ClauseAnalysis list \<Rightarrow> py_exception + int" where
  "sum_risk_scores [] = Inr 0"
| "sum_risk_scores (clause # rest) =
     (case map_of risk_scores (RiskLevel_value (ca_risk_level clause)) of
        None \<Rightarrow> Inl KeyError
      | Some s \<Rightarrow>
          (case sum_risk_scores rest of
             Inl e \<Rightarrow> Inl e
           | Inr t \<Rightarrow> Inr (s + t)))"

text \<open>
  \<open>total_score / len(clauses)\<close> is the correctly rounded quotient of two ints, and the
  thresholds 2.5 and 1.5 are floats, so the two comparisons agree with those on the exact
  quotient for every list of fewer than \<open>2^51\<close> clauses. The average is the exact quotient.
\<close>

definition calculate_overall_risk :: "ClauseAnalysis list \<Rightarrow> py_exception + string" where
  "calculate_overall_risk clauses =
     (if clauses = [] then Inr ''medium''
      else
        (case sum_risk_scores clauses of
           Inl e \<Rightarrow> Inl e
         | Inr total_score \<Rightarrow>
             (let average_score = (real_of_int total_score / real (length clauses))
              in if average_score \<ge> 2.5 then Inr ''high''
                 else if average_score \<ge> 1.5 then Inr ''medium''
                 else Inr ''low'')))"

text \<open>
  The average the specification speaks of, in its own words: high scores 3, medium 2,
  low 1, and the average is the sum of the scores over the number of clauses.
\<close>

fun spec_score :: "RiskLevel \<Rightarrow> int" where
  "spec_score HIGH = 3"
| "spec_score MEDIUM = 2"
| "spec_score LOW = 1"

definition spec_average_score :: "ClauseAnalysis list \<Rightarrow> real" where
  "spec_average_score clauses =
     real_of_int (sum_list (map (\<lambda>c. spec_score (ca_risk_level c)) clauses)) /
     real (length clauses)"

section \<open>External services\<close>

text \<open>
  A prompt handed to the generation model, given by its template and the values the
  template interpolates; the fixed wording of the template is not modelled. The model
  is a function from the prompt to the response text, or to the exception the call
  raises. \<open>json.loads\<close> is a function from a text to the value parsed, \<open>None\<close> when it
  raises \<open>JSONDecodeError\<close>.
\<close>

datatype prompt =
    Document_type_prompt string
  | Clauses_prompt "string list" string
  | Summary_prompt string "string list"
  | Answer_prompt string string string

type_synonym generation_model = "prompt \<Rightarrow> py_exception + string"

type_synonym json_loads = "string \<Rightarrow> json option"

section \<open>The clause classifier (api/vertex\_ai.py, segment\_and\_classify\_clauses)\<close>

text \<open>
  \<open>v[:n]\<close> on a parsed value: a string and a list are sliced, anything else raises
  \<open>TypeError\<close>.
\<close>

definition json_slice_to :: "json \<Rightarrow> nat \<Rightarrow> py_exception + json" where
  "json_slice_to v n =
     (case v of
        JStr s \<Rightarrow> Inr (JStr (take n s))
      | JList xs \<Rightarrow> Inr (JList (take n xs))
      | _ \<Rightarrow> Inl TypeError)"

text \<open>\<open>v.get(key, default)\<close> on a parsed value: only a dict has \<open>get\<close>.\<close>

definition json_get :: "json \<Rightarrow> string \<Rightarrow> json \<Rightarrow> py_exception + json" where
  "json_get v k dflt =
     (case v of
        JDict d \<Rightarrow> Inr (dict_get d k dflt)
      | _ \<Rightarrow> Inl AttributeError)"

text \<open>
  Iterating over a parsed value: a list yields its items, a string its characters, a
  dict its keys, anything else raises \<open>TypeError\<close>.
\<close>

definition json_iter :: "json \<Rightarrow> py_exception + json list" where
  "json_iter v =
     (case v of
        JList xs \<Rightarrow> Inr xs
      | JStr s \<Rightarrow> Inr (map (\<lambda>c. JStr [c]) s)
      | JDict d \<Rightarrow> Inr (map (\<lambda>kv. JStr (fst kv)) d)
      | _ \<Rightarrow> Inl TypeError)"

text \<open>
  The validation of the \<open>ClauseAnalysis\<close> constructor for a field of type \<open>str\<close> and for
  one of type \<open>List[str]\<close>. A string is accepted as it is; \<open>None\<close>, a list and a dict are
  rejected; what the library makes of a number or a boolean depends on its version and
  is the parameter \<open>coerce\<close> (\<open>None\<close>: the value is rejected).
\<close>

definition validate_str :: "(json \<Rightarrow> string option) \<Rightarrow> json \<Rightarrow> py_exception + string" where
  "validate_str coerce v =
     (case v of
        JStr s \<Rightarrow> Inr s
      | JNull \<Rightarrow> Inl ValidationError
      | JList xs \<Rightarrow> Inl ValidationError
      | JDict d \<Rightarrow> Inl ValidationError
      | _ \<Rightarrow> (case coerce v of Some s \<Rightarrow> Inr s | None \<Rightarrow> Inl ValidationError))"

fun validate_strs :: "(json \<Rightarrow> string option) \<Rightarrow> json list \<Rightarrow> py_exception + string list" where
  "validate_strs coerce [] = Inr []"
| "validate_strs coerce (v # vs) =
     (case validate_str coerce v of
        Inl e \<Rightarrow> Inl e
      | Inr s \<Rightarrow>
          (case validate_strs coerce vs of
             Inl e \<Rightarrow> Inl e
           | Inr ss \<Rightarrow> Inr (s # ss)))"

definition validate_str_list ::
  "(json \<Rightarrow> string option) \<Rightarrow> json \<Rightarrow> py_exception + string list" where
  "validate_str_list coerce v =
     (case v of
        JList xs \<Rightarrow> validate_strs coerce xs
      | _ \<Rightarrow> Inl ValidationError)"

text \<open>
  The body of the loop for the clause at index \<open>i\<close>. The arguments of the constructor
  are evaluated in the order they are written, the first exception ends the evaluation,
  and the constructor validates the fields last.
\<close>

definition classify_clause ::
  "(json \<Rightarrow> string option) \<Rightarrow> nat \<Rightarrow> json \<Rightarrow> py_exception + ClauseAnalysis" where
  "classify_clause coerce i clause_data =
     (case json_get clause_data ''clause_type'' (JStr ''other'') of Inl e \<Rightarrow> Inl e
      | Inr clause_type0 \<Rightarrow>
     (let clause_type =
        (if \<not> py_in clause_type0 (map ClauseType_value ClauseType_members)
         then JStr ''other'' else clause_type0)
      in
     (case json_get clause_data ''risk_level'' (JStr ''medium'') of Inl e \<Rightarrow> Inl e
      | Inr risk_level0 \<Rightarrow>
     (let risk_level =
        (if \<not> py_in risk_level0 (map RiskLevel_value RiskLevel_members)
         then JStr ''medium'' else risk_level0)
      in
     (case enum_call ClauseType_value ClauseType_members clause_type of Inl e \<Rightarrow> Inl e
      | Inr ct \<Rightarrow>
     (case json_get clause_data ''original_text'' (JStr []) of Inl e \<Rightarrow> Inl e
      | Inr ot0 \<Rightarrow>
     (case json_slice_to ot0 2000 of Inl e \<Rightarrow> Inl e
      | Inr ot \<Rightarrow>
     (case json_get clause_data ''plain_language'' (JStr []) of Inl e \<Rightarrow> Inl e
      | Inr pl0 \<Rightarrow>
     (case json_slice_to pl0 500 of Inl e \<Rightarrow> Inl e
      | Inr pl \<Rightarrow>
     (case enum_call RiskLevel_value RiskLevel_members risk_level of Inl e \<Rightarrow> Inl e
      | Inr rl \<Rightarrow>
     (case json_get clause_data ''risk_reason'' (JStr []) of Inl e \<Rightarrow> Inl e
      | Inr rr0 \<Rightarrow>
     (case json_slice_to rr0 300 of Inl e \<Rightarrow> Inl e
      | Inr rr \<Rightarrow>
     (case json_get clause_data ''recommendations'' (JList []) of Inl e \<Rightarrow> Inl e
      | Inr rec0 \<Rightarrow>
     (case json_slice_to rec0 3 of Inl e \<Rightarrow> Inl e
      | Inr recs \<Rightarrow>
     (case validate_str coerce ot of Inl e \<Rightarrow> Inl e
      | Inr original_text \<Rightarrow>
     (case validate_str coerce pl of Inl e \<Rightarrow> Inl e
      | Inr plain_language \<Rightarrow>
     (case validate_str coerce rr of Inl e \<Rightarrow> Inl e
      | Inr risk_reason \<Rightarrow>
     (case validate_str_list coerce recs of Inl e \<Rightarrow> Inl e
      | Inr recommendations \<Rightarrow>
        Inr \<lparr> ca_id = ''clause_'' @ str_nat (i + 1),
              ca_clause_type = ct,
              ca_original_text = original_text,
              ca_plain_language = plain_language,
              ca_risk_level = rl,
              ca_risk_reason = risk_reason,
              ca_recommendations = recommendations,
              ca_citations = [],
              ca_confidence_score = Some (Finite 0.8),
              ca_start_position = None,
              ca_end_position = None \<rparr>))))))))))))))))))"

text \<open>The loop over \<open>enumerate(result.get("clauses", []))\<close>.\<close>

fun classify_loop ::
  "(json \<Rightarrow> string option) \<Rightarrow> ClauseAnalysis list \<Rightarrow> (nat \<times> json) list \<Rightarrow>
   py_exception + ClauseAnalysis list" where
  "classify_loop coerce clauses [] = Inr clauses"
| "classify_loop coerce clauses ((i, clause_data) # rest) =
     (case classify_clause coerce i clause_data of
        Inl e \<Rightarrow> Inl e
      | Inr clause \<Rightarrow> classify_loop coerce (clauses @ [clause]) rest)"

text \<open>The \<open>try\<close> block after \<open>json.loads\<close> has returned \<open>result\<close>.\<close>

definition classify_parsed ::
  "(json \<Rightarrow> string option) \<Rightarrow> json \<Rightarrow> py_exception + ClauseAnalysis list" where
  "classify_parsed coerce result =
     (case json_get result ''clauses'' (JList []) of
        Inl e \<Rightarrow> Inl e
      | Inr cs \<Rightarrow>
          (case json_iter cs of
             Inl e \<Rightarrow> Inl e
           | Inr items \<Rightarrow> classify_loop coerce [] (enumerate 0 items)))"

text \<open>
  The handler of \<open>json.JSONDecodeError\<close>: one clause made of the document's text. The
  arguments of the constructor are evaluated in order, \<open>ClauseType.OTHER\<close> and
  \<open>RiskLevel.MEDIUM\<close> among them.
\<close>

definition fallback_clauses :: "string \<Rightarrow> py_exception + ClauseAnalysis list" where
  "fallback_clauses text =
     (case enum_attr ClauseType_name ClauseType_members ''OTHER'' of
        Inl e \<Rightarrow> Inl e
      | Inr ct \<Rightarrow>
          (case enum_attr RiskLevel_name RiskLevel_members ''MEDIUM'' of
             Inl e \<Rightarrow> Inl e
           | Inr rl \<Rightarrow>
               Inr [\<lparr> ca_id = ''clause_1'',
                      ca_clause_type = ct,
                      ca_original_text = take 2000 text,
                      ca_plain_language =
                        ''This document contains legal terms that require careful review. Please consult with a legal professional for detailed analysis.'',
                      ca_risk_level = rl,
                      ca_risk_reason = ''Unable to automatically parse document structure.'',
                      ca_recommendations =
                        [''Review the entire document carefully'',
                         ''Consult with a qualified attorney'',
                         ''Ask questions about unclear terms''],
                      ca_citations = [],
                      ca_confidence_score = Some (Finite 0.3),
                      ca_start_position = None,
                      ca_end_position = None \<rparr>]))"

definition segment_and_classify_clauses ::
  "generation_model \<Rightarrow> json_loads \<Rightarrow> (json \<Rightarrow> string option) \<Rightarrow> string \<Rightarrow>
   paragraph_dict list \<Rightarrow> py_exception + ClauseAnalysis list" where
  "segment_and_classify_clauses model loads coerce text paragraphs =
     (case model (Clauses_prompt (map ClauseType_value ClauseType_members) text) of
        Inl e \<Rightarrow> Inl e
      | Inr response_text \<Rightarrow>
          (case loads response_text of
             None \<Rightarrow> fallback_clauses text
           | Some result \<Rightarrow> classify_parsed coerce result))"

section \<open>The document store\<close>

text \<open>
  A stored document is a dict; a key that may be missing is an optional field. The
  collection of documents maps an identifier to the document stored under it. Times are
  natural numbers, and \<open>now\<close> is the time of the call, which both
  \<open>firestore.SERVER_TIMESTAMP\<close> and \<open>datetime.utcnow()\<close> write.
\<close>

record user =
  user_id :: string

record doc_metadata =
  md_file_name :: string
  md_mime_type :: string
  md_user_id :: "string option"

record extracted_data =
  ex_raw_text :: "string option"
  ex_paragraphs :: "paragraph_dict list option"

record document =
  d_metadata :: "doc_metadata option"
  d_processing_status :: "string option"
  d_extracted_data :: "extracted_data option"
  d_document_type :: "string option"
  d_clauses :: "pydict list option"
  d_classification_timestamp :: "nat option"
  d_knowledge_base_created :: "bool option"
  d_embeddings_count :: "nat option"
  d_error_message :: "string option"
  d_updated_at :: "nat option"

type_synonym documents = "string \<Rightarrow> document option"

text \<open>\<open>doc_ref.update(fields)\<close>: the document must exist.\<close>

definition update_document ::
  "documents \<Rightarrow> string \<Rightarrow> (document \<Rightarrow> document) \<Rightarrow> py_exception + documents" where
  "update_document db document_id changes =
     (case db document_id of
        None \<Rightarrow> Inl NotFound
      | Some d \<Rightarrow> Inr (db(document_id \<mapsto> changes d)))"

text \<open>
  The access check every endpoint makes: a caller is refused only when there is a caller,
  the document has a non-empty owner, and the two differ.
\<close>

definition access_denied :: "user option \<Rightarrow> document \<Rightarrow> bool" where
  "access_denied current_user doc_data =
     (case current_user of
        None \<Rightarrow> False
      | Some u \<Rightarrow>
          (case d_metadata doc_data of
             None \<Rightarrow> False
           | Some md \<Rightarrow>
               (case md_user_id md of
                  None \<Rightarrow> False
                | Some owner \<Rightarrow> owner \<noteq> [] \<and> owner \<noteq> user_id u)))"

section \<open>The classification endpoint (api/vertex\_ai.py, classify\_document\_clauses)\<close>

text \<open>\<open>str.strip()\<close> and \<open>str.lower()\<close>, on characters below 256.\<close>

definition is_space :: "char \<Rightarrow> bool" where
  "is_space c =
     (let n = (of_char c :: nat)
      in (9 \<le> n \<and> n \<le> 13) \<or> (28 \<le> n \<and> n \<le> 32) \<or> n = 133 \<or> n = 160)"

definition py_strip :: "string \<Rightarrow> string" where
  "py_strip s = rev (dropWhile is_space (rev (dropWhile is_space s)))"

definition lower_char :: "char \<Rightarrow> char" where
  "lower_char c =
     (let n = (of_char c :: nat)
      in if (65 \<le> n \<and> n \<le> 90) \<or> (192 \<le> n \<and> n \<le> 222 \<and> n \<noteq> 215)
         then char_of (n + 32) else c)"

definition py_lower :: "string \<Rightarrow> string" where
  "py_lower s = map lower_char s"

definition valid_types :: "string list" where
  "valid_types = [''rental_agreement'', ''loan_contract'', ''employment_contract'',
                  ''terms_of_service'', ''privacy_policy'', ''nda'', ''other'']"

definition classify_document_type :: "generation_model \<Rightarrow> string \<Rightarrow> py_exception + string" where
  "classify_document_type model text =
     (case model (Document_type_prompt (take 2000 text)) of
        Inl e \<Rightarrow> Inl e
      | Inr response_text \<Rightarrow>
          (let document_type = py_lower (py_strip response_text)
           in if document_type \<notin> set valid_types then Inr ''other'' else Inr document_type))"

text \<open>\<open>clause.dict()\<close>, as the store keeps it.\<close>

definition Citation_dict :: "Citation \<Rightarrow> pydict" where
  "Citation_dict c =
     [(''source'', JStr (cit_source c)),
      (''reference'', JStr (cit_reference c)),
      (''url'', (case cit_url c of None \<Rightarrow> JNull | Some u \<Rightarrow> JStr u))]"

definition ClauseAnalysis_dict :: "ClauseAnalysis \<Rightarrow> pydict" where
  "ClauseAnalysis_dict c =
     [(''id'', JStr (ca_id c)),
      (''clause_type'', JStr (ClauseType_value (ca_clause_type c))),
      (''original_text'', JStr (ca_original_text c)),
      (''plain_language'', JStr (ca_plain_language c)),
      (''risk_level'', JStr (RiskLevel_value (ca_risk_level c))),
      (''risk_reason'', JStr (ca_risk_reason c)),
      (''recommendations'', JList (map JStr (ca_recommendations c))),
      (''citations'', JList (map (\<lambda>x. JDict (Citation_dict x)) (ca_citations c))),
      (''confidence_score'', (case ca_confidence_score c of None \<Rightarrow> JNull | Some f \<Rightarrow> JFloat f)),
      (''start_position'', (case ca_start_position c of None \<Rightarrow> JNull | Some n \<Rightarrow> JInt n)),
      (''end_position'', (case ca_end_position c of None \<Rightarrow> JNull | Some n \<Rightarrow> JInt n))]"

record classify_response =
  cr_success :: bool
  cr_document_id :: string
  cr_message :: string
  cr_document_type :: string
  cr_clauses_found :: nat
  cr_clause_types :: "string set"

text \<open>
  The services an endpoint of this module calls: the generation model, \<open>json.loads\<close>,
  the constructor's coercion, \<open>str(e)\<close> of an exception, and the clock.
\<close>

record services =
  sv_model :: generation_model
  sv_loads :: json_loads
  sv_coerce :: "json \<Rightarrow> string option"
  sv_exc_str :: "py_exception \<Rightarrow> string"
  sv_now :: nat

text \<open>
  The \<open>try\<close> block of the endpoint: the store as the block leaves it, and the response
  or the exception raised.
\<close>

definition classify_try ::
  "services \<Rightarrow> documents \<Rightarrow> string \<Rightarrow> user option \<Rightarrow>
   documents \<times> (py_exception + classify_response)" where
  "classify_try sv db document_id current_user =
     (case db document_id of
        None \<Rightarrow> (db, Inl (HTTPException 404 ''Document not found''))
      | Some doc_data \<Rightarrow>
          if access_denied current_user doc_data
          then (db, Inl (HTTPException 403 ''Access denied''))
          else if d_processing_status doc_data \<noteq> Some (ProcessingStatus_value OCR_COMPLETE)
          then (db, Inl (HTTPException 400 ''Document must complete OCR processing first''))
          else
            (case update_document db document_id
                    (\<lambda>d. d\<lparr> d_processing_status := Some (ProcessingStatus_value PROCESSING),
                             d_updated_at := Some (sv_now sv) \<rparr>) of
               Inl e \<Rightarrow> (db, Inl e)
             | Inr db1 \<Rightarrow>
                 (let extracted = d_extracted_data doc_data;
                      raw_text = (case extracted of None \<Rightarrow> []
                                  | Some x \<Rightarrow> (case ex_raw_text x of None \<Rightarrow> [] | Some t \<Rightarrow> t));
                      paragraphs = (case extracted of None \<Rightarrow> []
                                    | Some x \<Rightarrow> (case ex_paragraphs x of None \<Rightarrow> [] | Some ps \<Rightarrow> ps))
                  in if raw_text = []
                     then (db1, Inl (HTTPException 400 ''No text found in document''))
                     else
                       (case classify_document_type (sv_model sv) raw_text of
                          Inl e \<Rightarrow> (db1, Inl e)
                        | Inr document_type \<Rightarrow>
                            (case segment_and_classify_clauses (sv_model sv) (sv_loads sv)
                                    (sv_coerce sv) raw_text paragraphs of
                               Inl e \<Rightarrow> (db1, Inl e)
                             | Inr clauses \<Rightarrow>
                                 (case update_document db1 document_id
                                         (\<lambda>d. d\<lparr> d_processing_status :=
                                                    Some (ProcessingStatus_value CLASSIFIED),
                                                  d_document_type := Some document_type,
                                                  d_clauses := Some (map ClauseAnalysis_dict clauses),
                                                  d_classification_timestamp := Some (sv_now sv),
                                                  d_updated_at := Some (sv_now sv) \<rparr>) of
                                    Inl e \<Rightarrow> (db1, Inl e)
                                  | Inr db2 \<Rightarrow>
                                      (db2,
                                       Inr \<lparr> cr_success = True,
                                             cr_document_id = document_id,
                                             cr_message =
                                               ''Clause classification completed successfully'',
                                             cr_document_type = document_type,
                                             cr_clauses_found = length clauses,
                                             cr_clause_types =
                                               set (map (\<lambda>c. ClauseType_value (ca_clause_type c))
                                                      clauses) \<rparr>)))))))"

text \<open>
  The update both handlers of the endpoint make before they raise: the status becomes
  \<open>failed\<close> and the error message is stored.
\<close>

definition mark_failed :: "services \<Rightarrow> string \<Rightarrow> document \<Rightarrow> document" where
  "mark_failed sv message d =
     d\<lparr> d_processing_status := Some (ProcessingStatus_value FAILED),
        d_error_message := Some message,
        d_updated_at := Some (sv_now sv) \<rparr>"

text \<open>
  The endpoint: the \<open>try\<close> block and its two handlers. An exception that the update in a
  handler raises replaces the one being handled.
\<close>

definition classify_document_clauses ::
  "services \<Rightarrow> documents \<Rightarrow> string \<Rightarrow> user option \<Rightarrow>
   documents \<times> (py_exception + classify_response)" where
  "classify_document_clauses sv db document_id current_user =
     (case classify_try sv db document_id current_user of
        (db', Inr response) \<Rightarrow> (db', Inr response)
      | (db', Inl e) \<Rightarrow>
          (case e of
             HTTPException code detail \<Rightarrow>
               (case update_document db' document_id
                       (mark_failed sv ''Clause classification failed'') of
                  Inl e' \<Rightarrow> (db', Inl e')
                | Inr db'' \<Rightarrow> (db'', Inl (HTTPException code detail)))
           | _ \<Rightarrow>
               (case update_document db' document_id (mark_failed sv (sv_exc_str sv e)) of
                  Inl e' \<Rightarrow> (db', Inl e')
                | Inr db'' \<Rightarrow>
                    (db'', Inl (HTTPException 500
                                 (''Clause classification failed: '' @ sv_exc_str sv e))))))"

section \<open>The retriever (api/rag.py, search\_knowledge\_base)\<close>

text \<open>
  A stored chunk with its vector; the key \<open>embedding\<close> may be missing, and so may the
  last three keys, which only an update of the stored chunk adds. The cosine
  similarity is computed in floating point and is a parameter here: a function from two
  vectors to a float, which may be NaN. The embedding model is a function from a text to
  its vector, or to the exception the call raises.
\<close>

record embedding_data =
  ed_chunk_id :: string
  ed_document_id :: string
  ed_text :: string
  ed_chunk_type :: string
  ed_metadata :: pydict
  ed_embedding :: "pyfloat list option"
  ed_created_at :: "nat option"
  ed_knowledge_base_created :: "bool option"
  ed_embeddings_count :: "nat option"
  ed_updated_at :: "nat option"

record 's search_result =
  sr_chunk_id :: string
  sr_text :: string
  sr_chunk_type :: string
  sr_metadata :: pydict
  sr_similarity :: 's

record 's search_response =
  sp_query :: string
  sp_results :: "'s search_result list"
  sp_total_searched :: nat

type_synonym embedding_model = "string \<Rightarrow> py_exception + pyfloat list"

text \<open>
  The loop over the stored chunks of the document: a chunk with a non-empty vector
  appends a result.
\<close>

fun score_loop ::
  "(pyfloat list \<Rightarrow> pyfloat list \<Rightarrow> 's) \<Rightarrow> pyfloat list \<Rightarrow> 's search_result list \<Rightarrow>
   embedding_data list \<Rightarrow> 's search_result list" where
  "score_loop similarity query_vector results [] = results"
| "score_loop similarity query_vector results (embedding # rest) =
     (let stored_vector = (case ed_embedding embedding of None \<Rightarrow> [] | Some v \<Rightarrow> v)
      in if stored_vector \<noteq> []
         then score_loop similarity query_vector
                (results @
                 [\<lparr> sr_chunk_id = ed_chunk_id embedding,
                     sr_text = ed_text embedding,
                     sr_chunk_type = ed_chunk_type embedding,
                     sr_metadata = ed_metadata embedding,
                     sr_similarity = similarity query_vector stored_vector \<rparr>]) rest
         else score_loop similarity query_vector results rest)"

text \<open>
  \<open>results.sort(key=..., reverse=True)\<close> compares the keys with \<open><\<close> only. When no key
  is NaN, \<open><\<close> orders the keys and the result is the stable sort into descending order,
  which keeps results of equal score in their order: the list is reversed, sorted stably
  into ascending order, and reversed again. When a key is NaN, the comparisons are not an
  order, and the sort leaves the list in an arrangement of its elements that depends on
  its run detection and merging; that arrangement is the parameter \<open>nan_order\<close>, from the
  list of keys to the order of the indices (an order that is not a permutation of the
  indices leaves the list as it is).
\<close>

fun insert_by_key :: "('a \<Rightarrow> pyfloat) \<Rightarrow> 'a \<Rightarrow> 'a list \<Rightarrow> 'a list" where
  "insert_by_key key x [] = [x]"
| "insert_by_key key x (y # ys) =
     (if float_lt (key y) (key x) then y # insert_by_key key x ys else x # y # ys)"

definition stable_sort_by_key :: "('a \<Rightarrow> pyfloat) \<Rightarrow> 'a list \<Rightarrow> 'a list" where
  "stable_sort_by_key key xs = foldr (insert_by_key key) xs []"

definition sort_reverse ::
  "(pyfloat list \<Rightarrow> nat list) \<Rightarrow> ('a \<Rightarrow> pyfloat) \<Rightarrow> 'a list \<Rightarrow> 'a list" where
  "sort_reverse nan_order key xs =
     (if NaN \<in> set (map key xs)
      then (let order = nan_order (map key xs)
            in if sort order = [0..<length xs] then map (\<lambda>i. xs ! i) order else xs)
      else rev (stable_sort_by_key key (rev xs)))"

definition search_try ::
  "embedding_model \<Rightarrow> (pyfloat list \<Rightarrow> pyfloat list \<Rightarrow> pyfloat) \<Rightarrow>
   (pyfloat list \<Rightarrow> nat list) \<Rightarrow>
   documents \<Rightarrow> embedding_data list \<Rightarrow> string \<Rightarrow> string \<Rightarrow> int \<Rightarrow> user option \<Rightarrow>
   py_exception + pyfloat search_response" where
  "search_try get_embeddings similarity nan_order db embeddings document_id query limit
       current_user =
     (case db document_id of
        None \<Rightarrow> Inl (HTTPException 404 ''Document not found'')
      | Some doc_data \<Rightarrow>
          if access_denied current_user doc_data
          then Inl (HTTPException 403 ''Access denied'')
          else if d_knowledge_base_created doc_data \<noteq> Some True
          then Inl (HTTPException 400 ''Knowledge base not created for this document'')
          else
            (case get_embeddings query of
               Inl e \<Rightarrow> Inl e
             | Inr query_vector \<Rightarrow>
                 (let stream = filter (\<lambda>e. ed_document_id e = document_id) embeddings;
                      results = score_loop similarity query_vector [] stream;
                      results = sort_reverse nan_order sr_similarity results;
                      top_results = slice_to results limit
                  in Inr \<lparr> sp_query = query,
                           sp_results = top_results,
                           sp_total_searched = length results \<rparr>)))"

text \<open>
  The endpoint: an \<open>HTTPException\<close> is raised again, any other exception becomes a 500.
\<close>

definition search_knowledge_base ::
  "embedding_model \<Rightarrow> (pyfloat list \<Rightarrow> pyfloat list \<Rightarrow> pyfloat) \<Rightarrow>
   (pyfloat list \<Rightarrow> nat list) \<Rightarrow> (py_exception \<Rightarrow> string) \<Rightarrow>
   documents \<Rightarrow> embedding_data list \<Rightarrow> string \<Rightarrow> string \<Rightarrow> int \<Rightarrow> user option \<Rightarrow>
   py_exception + pyfloat search_response" where
  "search_knowledge_base get_embeddings similarity nan_order exc_str db embeddings document_id
       query limit current_user =
     (case search_try get_embeddings similarity nan_order db embeddings document_id query limit
             current_user of
        Inr response \<Rightarrow> Inr response
      | Inl e \<Rightarrow>
          (case e of
             HTTPException code detail \<Rightarrow> Inl (HTTPException code detail)
           | _ \<Rightarrow> Inl (HTTPException 500 (''Knowledge base search failed: '' @ exc_str e))))"

text \<open>
  The number of chunks stored for a document that have a non-empty vector, as the
  specification counts them.
\<close>

definition has_vector :: "embedding_data \<Rightarrow> bool" where
  "has_vector e = (case ed_embedding e of None \<Rightarrow> False | Some v \<Rightarrow> v \<noteq> [])"

definition chunks_with_vector :: "embedding_data list \<Rightarrow> string \<Rightarrow> nat" where
  "chunks_with_vector embeddings document_id =
     length (filter (\<lambda>e. ed_document_id e = document_id \<and> has_vector e) embeddings)"

text \<open>
  The scores the search computes for a document: one for each stored chunk of the document
  with a non-empty vector, in the order of the stored chunks.
\<close>

definition stored_scores ::
  "(pyfloat list \<Rightarrow> pyfloat list \<Rightarrow> pyfloat) \<Rightarrow> pyfloat list \<Rightarrow> embedding_data list \<Rightarrow>
   string \<Rightarrow> pyfloat list" where
  "stored_scores similarity query_vector embeddings document_id =
     map (\<lambda>e. similarity query_vector (case ed_embedding e of None \<Rightarrow> [] | Some v \<Rightarrow> v))
       (filter (\<lambda>e. ed_document_id e = document_id \<and> has_vector e) embeddings)"

section \<open>The knowledge-base build (api/rag.py, create\_knowledge\_base)\<close>

record store =
  st_documents :: documents
  st_embeddings :: "embedding_data list"

record kb_response =
  kb_success :: bool
  kb_document_id :: string
  kb_message :: string
  kb_chunks_created :: nat
  kb_embeddings_generated :: nat

text \<open>
  The loop over \<open>enumerate(chunks)\<close>: a chunk whose embedding call raises is skipped.
\<close>

fun embed_loop ::
  "embedding_model \<Rightarrow> string \<Rightarrow> nat \<Rightarrow> embedding_data list \<Rightarrow> (nat \<times> chunk) list \<Rightarrow>
   embedding_data list" where
  "embed_loop get_embeddings document_id now embeddings_data [] = embeddings_data"
| "embed_loop get_embeddings document_id now embeddings_data ((i, chunk) # rest) =
     (case get_embeddings (ch_text chunk) of
        Inl e \<Rightarrow> embed_loop get_embeddings document_id now embeddings_data rest
      | Inr embedding_vector \<Rightarrow>
          embed_loop get_embeddings document_id now
            (embeddings_data @
             [\<lparr> ed_chunk_id = document_id @ ''_chunk_'' @ str_nat i,
                 ed_document_id = document_id,
                 ed_text = ch_text chunk,
                 ed_chunk_type = ch_type chunk,
                 ed_metadata = ch_metadata chunk,
                 ed_embedding = Some embedding_vector,
                 ed_created_at = Some now,
                 ed_knowledge_base_created = None,
                 ed_embeddings_count = None,
                 ed_updated_at = None \<rparr>]) rest)"

text \<open>
  \<open>batch.set(doc_ref, embedding_data)\<close>: the chunk stored under the same identifier is
  replaced, a new identifier adds a chunk.
\<close>

fun set_embedding :: "embedding_data list \<Rightarrow> embedding_data \<Rightarrow> embedding_data list" where
  "set_embedding [] e = [e]"
| "set_embedding (x # xs) e =
     (if ed_chunk_id x = ed_chunk_id e then e # xs else x # set_embedding xs e)"

text \<open>
  The loop that fills the batch assigns \<open>doc_ref\<close> again, to the reference of each stored
  chunk in turn. The update after the commit goes to whatever \<open>doc_ref\<close> then refers to:
  the main document when no chunk was embedded, the last stored chunk otherwise.
\<close>

definition update_embedding ::
  "embedding_data list \<Rightarrow> string \<Rightarrow> (embedding_data \<Rightarrow> embedding_data) \<Rightarrow>
   py_exception + embedding_data list" where
  "update_embedding embeddings chunk_id changes =
     (if chunk_id \<in> set (map ed_chunk_id embeddings)
      then Inr (map (\<lambda>e. if ed_chunk_id e = chunk_id then changes e else e) embeddings)
      else Inl NotFound)"

definition knowledge_base_try ::
  "embedding_model \<Rightarrow> (json \<Rightarrow> string) \<Rightarrow> nat \<Rightarrow> store \<Rightarrow> string \<Rightarrow> user option \<Rightarrow>
   store \<times> (py_exception + kb_response)" where
  "knowledge_base_try get_embeddings repr now st document_id current_user =
     (case st_documents st document_id of
        None \<Rightarrow> (st, Inl (HTTPException 404 ''Document not found''))
      | Some doc_data \<Rightarrow>
          if access_denied current_user doc_data
          then (st, Inl (HTTPException 403 ''Access denied''))
          else
            (let extracted = d_extracted_data doc_data;
                 raw_text = (case extracted of None \<Rightarrow> []
                             | Some x \<Rightarrow> (case ex_raw_text x of None \<Rightarrow> [] | Some t \<Rightarrow> t));
                 paragraphs = (case extracted of None \<Rightarrow> []
                               | Some x \<Rightarrow> (case ex_paragraphs x of None \<Rightarrow> [] | Some ps \<Rightarrow> ps));
                 clauses = (case d_clauses doc_data of None \<Rightarrow> [] | Some cs \<Rightarrow> cs)
             in if raw_text = []
                then (st, Inl (HTTPException 400 ''No text found in document''))
                else
                  (let chunks = create_text_chunks repr raw_text paragraphs clauses;
                       embeddings_data =
                         embed_loop get_embeddings document_id now [] (enumerate 0 chunks);
                       st1 = st\<lparr> st_embeddings :=
                                   foldl set_embedding (st_embeddings st) embeddings_data \<rparr>;
                       response =
                         \<lparr> kb_success = True,
                           kb_document_id = document_id,
                           kb_message = ''Knowledge base created successfully'',
                           kb_chunks_created = length embeddings_data,
                           kb_embeddings_generated = length embeddings_data \<rparr>
                   in if embeddings_data = []
                      then
                        (case update_document (st_documents st1) document_id
                                (\<lambda>d. d\<lparr> d_knowledge_base_created := Some True,
                                         d_embeddings_count := Some (length embeddings_data),
                                         d_updated_at := Some now \<rparr>) of
                           Inl e \<Rightarrow> (st1, Inl e)
                         | Inr db \<Rightarrow> (st1\<lparr> st_documents := db \<rparr>, Inr response))
                      else
                        (case update_embedding (st_embeddings st1)
                                (ed_chunk_id (last embeddings_data))
                                (\<lambda>e. e\<lparr> ed_knowledge_base_created := Some True,
                                         ed_embeddings_count := Some (length embeddings_data),
                                         ed_updated_at := Some now \<rparr>) of
                           Inl e \<Rightarrow> (st1, Inl e)
                         | Inr es \<Rightarrow> (st1\<lparr> st_embeddings := es \<rparr>, Inr response)))))"

definition create_knowledge_base ::
  "embedding_model \<Rightarrow> (json \<Rightarrow> string) \<Rightarrow> (py_exception \<Rightarrow> string) \<Rightarrow> nat \<Rightarrow> store \<Rightarrow>
   string \<Rightarrow> user option \<Rightarrow> store \<times> (py_exception + kb_response)" where
  "create_knowledge_base get_embeddings repr exc_str now st document_id current_user =
     (case knowledge_base_try get_embeddings repr now st document_id current_user of
        (st', Inr response) \<Rightarrow> (st', Inr response)
      | (st', Inl e) \<Rightarrow>
          (case e of
             HTTPException code detail \<Rightarrow> (st', Inl (HTTPException code detail))
           | _ \<Rightarrow>
               (st', Inl (HTTPException 500 (''Failed to create knowledge base: '' @ exc_str e)))))"

section \<open>The QA orchestrator (api/qa.py, generate\_answer)\<close>

record legal_result =
  lr_title :: string
  lr_snippet :: string
  lr_link :: string
  lr_source :: string
  lr_relevance_score :: pyfloat

record answer_data =
  ad_answer :: json
  ad_confidence :: pyfloat
  ad_sources :: "string list"
  ad_citations :: "Citation list"

text \<open>
  The warning sign that opens the disclaimer is the two characters U+26A0 and U+FE0F;
  they are written here as the six bytes of their UTF-8 encoding.
\<close>

definition warning_sign :: string where
  "warning_sign = [CHR 0xE2, CHR 0x9A, CHR 0xA0, CHR 0xEF, CHR 0xB8, CHR 0x8F]"

text \<open>The sentence that all three answers of \<open>generate_answer\<close> end with or contain.\<close>

definition disclaimer :: string where
  "disclaimer =
     warning_sign @
     '' This analysis is for educational purposes only and does not constitute legal advice.''"

text \<open>\<open>float(v)\<close> of a parsed value. Parsing a string is the parameter \<open>float_of_str\<close>
  (\<open>None\<close>: \<open>ValueError\<close>); an int too large for a float raises \<open>OverflowError\<close>, and the
  rounding of a large int to the nearest float is left out.\<close>

definition py_float :: "(string \<Rightarrow> pyfloat option) \<Rightarrow> json \<Rightarrow> py_exception + pyfloat" where
  "py_float float_of_str v =
     (case v of
        JFloat f \<Rightarrow> Inr f
      | JInt i \<Rightarrow>
          (if \<bar>i\<bar> \<ge> 2 ^ 1024 - 2 ^ 970 then Inl OverflowError
           else Inr (Finite (real_of_int i)))
      | JBool b \<Rightarrow> Inr (Finite (if b then 1 else 0))
      | JStr s \<Rightarrow> (case float_of_str s of None \<Rightarrow> Inl ValueError | Some f \<Rightarrow> Inr f)
      | _ \<Rightarrow> Inl TypeError)"

text \<open>\<open>v += s\<close> for a string \<open>s\<close>: a string is extended by \<open>s\<close>, a list by the characters
  of \<open>s\<close>, anything else raises \<open>TypeError\<close>.\<close>

definition json_iadd_str :: "json \<Rightarrow> string \<Rightarrow> py_exception + json" where
  "json_iadd_str v s =
     (case v of
        JStr a \<Rightarrow> Inr (JStr (a @ s))
      | JList xs \<Rightarrow> Inr (JList (xs @ map (\<lambda>c. JStr [c]) s))
      | _ \<Rightarrow> Inl TypeError)"

definition join :: "string \<Rightarrow> string list \<Rightarrow> string" where
  "join sep xs = (case xs of [] \<Rightarrow> [] | y # ys \<Rightarrow> y @ concat (map (\<lambda>z. sep @ z) ys))"

text \<open>\<open>document_type.replace('_', ' ')\<close>\<close>

definition replace_underscores :: "string \<Rightarrow> string" where
  "replace_underscores s = map (\<lambda>c. if c = CHR ''_'' then CHR '' '' else c) s"

definition create_citations :: "legal_result list \<Rightarrow> Citation list" where
  "create_citations legal_context =
     map (\<lambda>ctx. \<lparr> cit_source = lr_source ctx,
                  cit_reference = lr_title ctx,
                  cit_url = Some (lr_link ctx) \<rparr>) legal_context"

text \<open>
  The source label of a retrieved chunk. The format \<open>:.2f\<close> of a similarity score is the
  parameter \<open>fmt\<close>.
\<close>

definition document_source ::
  "(json \<Rightarrow> string) \<Rightarrow> ('s \<Rightarrow> string) \<Rightarrow> 's search_result \<Rightarrow> string" where
  "document_source repr fmt ctx =
     (if sr_chunk_type ctx = ''clause''
      then ''Clause: '' @ py_str repr (dict_get (sr_metadata ctx) ''clause_type'' (JStr ''Unknown''))
      else ''Document section (similarity: '' @ fmt (sr_similarity ctx) @ '')'')"

text \<open>The summary line of a clause; the slice raises on a value that cannot be sliced.\<close>

definition clause_summary :: "(json \<Rightarrow> string) \<Rightarrow> pydict \<Rightarrow> py_exception + string" where
  "clause_summary repr clause =
     (case json_slice_to (dict_get clause ''plain_language'' (JStr [])) 200 of
        Inl e \<Rightarrow> Inl e
      | Inr pl \<Rightarrow>
          Inr (''- '' @ py_str repr (dict_get clause ''clause_type'' (JStr ''Unknown'')) @ '': '' @
               py_str repr pl @ ''...''))"

fun clause_summaries :: "(json \<Rightarrow> string) \<Rightarrow> pydict list \<Rightarrow> py_exception + string list" where
  "clause_summaries repr [] = Inr []"
| "clause_summaries repr (clause # rest) =
     (case clause_summary repr clause of
        Inl e \<Rightarrow> Inl e
      | Inr line \<Rightarrow>
          (case clause_summaries repr rest of
             Inl e \<Rightarrow> Inl e
           | Inr ls \<Rightarrow> Inr (line # ls)))"

text \<open>The context lines and the source labels built before the \<open>try\<close> block.\<close>

definition context_parts ::
  "(json \<Rightarrow> string) \<Rightarrow> 's search_result list \<Rightarrow> legal_result list \<Rightarrow> pydict list \<Rightarrow>
   py_exception + string list" where
  "context_parts repr document_context legal_context clauses =
     (let document_lines =
            (if document_context \<noteq> []
             then ''=== DOCUMENT CONTEXT ==='' #
                  map (\<lambda>ic. ''Context '' @ str_nat (fst ic + 1) @ '': '' @
                            take 500 (sr_text (snd ic)) @ ''...'')
                      (enumerate 0 document_context)
             else []);
          legal_lines =
            (if legal_context \<noteq> []
             then (nl @ ''=== LEGAL REFERENCES ==='') #
                  map (\<lambda>ic. ''Legal Reference '' @ str_nat (fst ic + 1) @ '': '' @
                            lr_snippet (snd ic))
                      (enumerate 0 legal_context)
             else [])
      in if clauses \<noteq> []
         then (case clause_summaries repr (take 5 clauses) of
                 Inl e \<Rightarrow> Inl e
               | Inr ls \<Rightarrow>
                   Inr (document_lines @ legal_lines @
                        (nl @ ''=== DOCUMENT CLAUSES SUMMARY ==='') # ls))
         else Inr (document_lines @ legal_lines))"

definition answer_sources ::
  "(json \<Rightarrow> string) \<Rightarrow> ('s \<Rightarrow> string) \<Rightarrow> 's search_result list \<Rightarrow> legal_result list \<Rightarrow>
   string list" where
  "answer_sources repr fmt document_context legal_context =
     map (document_source repr fmt) document_context @
     map (\<lambda>ctx. ''Legal: '' @ lr_title ctx) legal_context"

text \<open>The \<open>try\<close> block after \<open>json.loads\<close> has returned \<open>result\<close>.\<close>

definition answer_parsed ::
  "(string \<Rightarrow> pyfloat option) \<Rightarrow> string list \<Rightarrow> legal_result list \<Rightarrow> json \<Rightarrow>
   py_exception + answer_data" where
  "answer_parsed float_of_str sources legal_context result =
     (case json_get result ''answer''
             (JStr ''I couldn't find relevant information in the document to answer your question.'') of
        Inl e \<Rightarrow> Inl e
      | Inr answer0 \<Rightarrow>
     (case json_get result ''confidence'' (JFloat (Finite 0.5)) of
        Inl e \<Rightarrow> Inl e
      | Inr confidence0 \<Rightarrow>
     (case py_float float_of_str confidence0 of
        Inl e \<Rightarrow> Inl e
      | Inr confidence \<Rightarrow>
     (case json_iadd_str answer0
             (nl @ nl @ disclaimer @
              '' Please consult with a qualified attorney for legal decisions.'') of
        Inl e \<Rightarrow> Inl e
      | Inr answer \<Rightarrow>
          Inr \<lparr> ad_answer = answer,
                ad_confidence = py_min (py_max confidence (Finite 0.0)) (Finite 1.0),
                ad_sources = take 5 sources,
                ad_citations = create_citations legal_context \<rparr>))))"

text \<open>
  The answer of the handler of \<open>json.JSONDecodeError\<close>: a fixed text, then the
  disclaimer.
\<close>

definition decode_error_text :: string where
  "decode_error_text =
     ''I found some relevant information in your document, but I'm having trouble providing a detailed analysis right now. Please try rephrasing your question or consult the document clauses directly.''"

definition decode_error_answer :: "string list \<Rightarrow> answer_data" where
  "decode_error_answer sources =
     \<lparr> ad_answer = JStr (decode_error_text @ nl @ nl @ disclaimer),
       ad_confidence = Finite 0.3,
       ad_sources = take 3 sources,
       ad_citations = [] \<rparr>"

text \<open>
  The answer of the handler of every other exception: a text that names the type of
  the document, then the disclaimer.
\<close>

definition other_error_text :: "string \<Rightarrow> string" where
  "other_error_text document_type =
     ''I encountered an issue while analyzing your question. The document appears to be a '' @
     replace_underscores document_type @
     '', but I cannot provide a specific answer at this time. Please review the document directly or consult with a legal professional.''"

definition other_error_answer :: "string \<Rightarrow> answer_data" where
  "other_error_answer document_type =
     \<lparr> ad_answer = JStr (other_error_text document_type @ nl @ nl @ disclaimer),
       ad_confidence = Finite 0.2,
       ad_sources = [],
       ad_citations = [] \<rparr>"

definition generate_answer ::
  "generation_model \<Rightarrow> json_loads \<Rightarrow> (string \<Rightarrow> pyfloat option) \<Rightarrow> (json \<Rightarrow> string) \<Rightarrow>
   ('s \<Rightarrow> string) \<Rightarrow> string \<Rightarrow> string \<Rightarrow> 's search_result list \<Rightarrow> legal_result list \<Rightarrow>
   pydict list \<Rightarrow> py_exception + answer_data" where
  "generate_answer model loads float_of_str repr fmt question document_type document_context
       legal_context clauses =
     (case context_parts repr document_context legal_context clauses of
        Inl e \<Rightarrow> Inl e
      | Inr parts \<Rightarrow>
          (let sources = answer_sources repr fmt document_context legal_context;
               context_text = join nl parts;
               prompt = Answer_prompt (replace_underscores document_type) context_text question
           in (case model prompt of
                 Inl e \<Rightarrow> Inr (other_error_answer document_type)
               | Inr response_text \<Rightarrow>
                   (case loads response_text of
                      None \<Rightarrow> Inr (decode_error_answer sources)
                    | Some result \<Rightarrow>
                        (case answer_parsed float_of_str sources legal_context result of
                           Inl e \<Rightarrow> Inr (other_error_answer document_type)
                         | Inr answer \<Rightarrow> Inr answer)))))"

text \<open>A confidence lies in \<open>[0.0, 1.0]\<close>.\<close>

definition in_unit_interval :: "pyfloat \<Rightarrow> bool" where
  "in_unit_interval c = (float_le (Finite 0) c \<and> float_le c (Finite 1))"

text \<open>
  The bounds the specification puts on a clause the classifier returns.
\<close>

definition clause_within_bounds :: "ClauseAnalysis \<Rightarrow> bool" where
  "clause_within_bounds c =
     (ca_clause_type c \<in> set ClauseType_members \<and>
      ca_risk_level c \<in> set RiskLevel_members \<and>
      length (ca_original_text c) \<le> 2000 \<and>
      length (ca_plain_language c) \<le> 500 \<and>
      length (ca_risk_reason c) \<le> 300 \<and>
      length (ca_recommendations c) \<le> 3 \<and>
      ca_confidence_score c = Some (Finite 0.8))"

section \<open>Example data\<close>

definition example_services :: services where
  "example_services =
     \<lparr> sv_model = (\<lambda>p. Inr ''other''),
       sv_loads = (\<lambda>s. None),
       sv_coerce = (\<lambda>v. None),
       sv_exc_str = (\<lambda>e. ''error''),
       sv_now = 7 \<rparr>"

definition example_document :: document where
  "example_document =
     \<lparr> d_metadata = Some \<lparr> md_file_name = ''lease.pdf'', md_mime_type = ''application/pdf'',
                           md_user_id = None \<rparr>,
       d_processing_status = Some ''uploaded'',
       d_extracted_data = None,
       d_document_type = None,
       d_clauses = None,
       d_classification_timestamp = None,
       d_knowledge_base_created = Some True,
       d_embeddings_count = Some 3,
       d_error_message = None,
       d_updated_at = Some 1 \<rparr>"

definition example_text_document :: document where
  "example_text_document =
     example_document
       \<lparr> d_processing_status := Some ''ocr_complete'',
          d_extracted_data :=
            Some \<lparr> ex_raw_text = Some ''Rent is due on the first day of each month.'',
                    ex_paragraphs = None \<rparr>,
          d_knowledge_base_created := None,
          d_embeddings_count := None \<rparr>"

definition example_documents :: documents where
  "example_documents = Map.empty(''doc1'' \<mapsto> example_document)"

definition example_embedding :: "string \<Rightarrow> pyfloat list \<Rightarrow> embedding_data" where
  "example_embedding chunk_id v =
     \<lparr> ed_chunk_id = chunk_id,
       ed_document_id = ''doc1'',
       ed_text = ''Rent is due on the first day of each month.'',
       ed_chunk_type = ''paragraph'',
       ed_metadata = [],
       ed_embedding = Some v,
       ed_created_at = Some 5,
       ed_knowledge_base_created = None,
       ed_embeddings_count = None,
       ed_updated_at = None \<rparr>"

definition example_embeddings :: "embedding_data list" where
  "example_embeddings =
     [example_embedding ''doc1_chunk_0'' [Finite 1],
      example_embedding ''doc1_chunk_1'' [Finite 3],
      example_embedding ''doc1_chunk_2'' [Finite 2]]"

text \<open>A score for the examples: the first component of the stored vector.\<close>

definition example_similarity :: "pyfloat list \<Rightarrow> pyfloat list \<Rightarrow> pyfloat" where
  "example_similarity q v = (case v of x # _ \<Rightarrow> x | [] \<Rightarrow> Finite 0)"

definition example_clause :: "RiskLevel \<Rightarrow> ClauseAnalysis" where
  "example_clause r =
     \<lparr> ca_id = ''clause_1'', ca_clause_type = TERMINATION,
       ca_original_text = ''Either party may terminate with 30 days notice.'',
       ca_plain_language = ''You can end the contract with a month of notice.'',
       ca_risk_level = r, ca_risk_reason = ''Standard term.'',
       ca_recommendations = [], ca_citations = [], ca_confidence_score = Some (Finite 0.8),
       ca_start_position = None, ca_end_position = None \<rparr>"

section \<open>Properties of the chunker\<close>

lemma clause_loop_append:
  "clause_loop repr chunks clauses = chunks @ map (clause_chunk repr) clauses"
  by (induction clauses arbitrary: chunks) simp_all

lemma paragraph_loop_append:
  "paragraph_loop chunks ips =
     chunks @ map (\<lambda>ip. paragraph_chunk (fst ip) (snd ip)) (filter (\<lambda>ip. length (paragraph_text (snd ip)) > 100) ips)"
  by (induction chunks ips rule: paragraph_loop.induct) simp_all

lemma create_text_chunks_eq:
  "create_text_chunks repr raw_text paragraphs clauses =
     document_chunk raw_text # map (clause_chunk repr) clauses @
     map (\<lambda>ip. paragraph_chunk (fst ip) (snd ip))
       (filter (\<lambda>ip. length (paragraph_text (snd ip)) > 100) (enumerate 0 (take 10 paragraphs)))"
  by (simp add: create_text_chunks_def Let_def clause_loop_append paragraph_loop_append)

lemma filter_type_clause [simp]:
  "filter (\<lambda>c. ch_type c = ''clause'') (map (clause_chunk repr) cs) = map (clause_chunk repr) cs"
  by (induction cs) (simp_all add: clause_chunk_def)

lemma filter_type_clause_par [simp]:
  "filter (\<lambda>c. ch_type c = ''clause'') (map (\<lambda>ip. paragraph_chunk (fst ip) (snd ip)) ips) = []"
  by (induction ips) (simp_all add: paragraph_chunk_def)

lemma filter_type_par_clause [simp]:
  "filter (\<lambda>c. ch_type c = ''paragraph'') (map (clause_chunk repr) cs) = []"
  by (induction cs) (simp_all add: clause_chunk_def)

lemma filter_type_par_par [simp]:
  "filter (\<lambda>c. ch_type c = ''paragraph'') (map (\<lambda>ip. paragraph_chunk (fst ip) (snd ip)) ips) 
    = map (\<lambda>ip. paragraph_chunk (fst ip) (snd ip)) ips"
  by (induction ips) (simp_all add: paragraph_chunk_def)

lemma length_substantial_le:
  "length (filter P (enumerate 0 (take 10 paragraphs))) \<le> 10"
proof -
  have "length (filter P (enumerate 0 (take 10 paragraphs))) \<le> length (enumerate 0 (take 10 paragraphs))"
    by (rule length_filter_le)
  also have "\<dots> \<le> 10" by simp
  finally show ?thesis .
qed

lemma length_filter_enumerate:
  "length (filter (\<lambda>ip. P (snd ip)) (enumerate n xs)) = length (filter P xs)"
  by (induction xs arbitrary: n) simp_all

lemma length_create_text_chunks:
  "length (create_text_chunks repr raw_text paragraphs clauses) =
     1 + length clauses +
     length (filter (\<lambda>p. length (paragraph_text p) > 100) (take 10 paragraphs))"
  by (simp add: create_text_chunks_eq
      length_filter_enumerate [of "\<lambda>p. length (paragraph_text p) > 100"])

lemma short_in_prefix_le:
  "length (filter P (take n xs)) \<le> length (filter P xs)"
proof -
  have "length (filter P xs) = length (filter P (take n xs @ drop n xs))" by simp
  also have "\<dots> = length (filter P (take n xs)) + length (filter P (drop n xs))"
    by (simp only: filter_append length_append)
  finally show ?thesis by simp
qed

lemma filter_split_count:
  "length (filter (\<lambda>p. length (paragraph_text p) > 100) xs) +
   length (filter (\<lambda>p. length (paragraph_text p) \<le> 100) xs) = length xs"
  using sum_length_filter_compl [of "\<lambda>p. length (paragraph_text p) > 100" xs]
  by (simp add: not_less)


text \<open>
  Claim C8. For every raw text, paragraph list and clause list the chunker returns at
  least one chunk; the first chunk is the full-document chunk, whose text is the first
  2000 characters of the raw text, also when there are no clauses and no paragraphs; the
  clause chunks are exactly as many as the clauses; the paragraph chunks are at most 10.
\<close>

theorem create_text_chunks_shape:
  "create_text_chunks repr raw_text paragraphs clauses \<noteq> [] \<and>
   hd (create_text_chunks repr raw_text paragraphs clauses) = document_chunk raw_text \<and>
   ch_text (hd (create_text_chunks repr raw_text paragraphs clauses)) = take 2000 raw_text \<and>
   ch_type (hd (create_text_chunks repr raw_text paragraphs clauses)) = ''document'' \<and>
   dict_get (ch_metadata (hd (create_text_chunks repr raw_text paragraphs clauses)))
     ''chunk_type'' JNull = JStr ''full_document'' \<and>
   create_text_chunks repr raw_text [] [] = [document_chunk raw_text] \<and>
   length (filter (\<lambda>c. ch_type c = ''clause'')
     (create_text_chunks repr raw_text paragraphs clauses)) = length clauses \<and>
   length (filter (\<lambda>c. ch_type c = ''paragraph'')
     (create_text_chunks repr raw_text paragraphs clauses)) \<le> 10"
  by (simp add: create_text_chunks_eq length_substantial_le)
     (simp add: document_chunk_def dict_get_def enumerate_eq_zip)

text \<open>
  Claim C9, as stated, fails: the full-document chunk of an empty raw text has an empty
  text.
\<close>

theorem create_text_chunks_empty_text_counterexample:
  "map ch_text (create_text_chunks (\<lambda>v. []) [] [] []) = [[]]"
  by (simp add: create_text_chunks_eq document_chunk_def)

text \<open>
  Claim C9, amended. For every non-empty raw text (the only kind the knowledge-base build
  passes to the chunker), every paragraph list and every clause list, no chunk has an
  empty text.
\<close>

theorem create_text_chunks_nonempty_text:
  assumes "raw_text \<noteq> []"
  shows "\<forall>c \<in> set (create_text_chunks repr raw_text paragraphs clauses). ch_text c \<noteq> []"
  using assms
  by (auto simp add: create_text_chunks_eq document_chunk_def clause_chunk_def
      paragraph_chunk_def)

theorem create_text_chunks_nonempty_text_witness:
  "''Lease'' \<noteq> [] \<and>
   list_all (\<lambda>c. ch_text c \<noteq> [])
     (create_text_chunks (\<lambda>v. []) ''Lease''
        [\<lparr>p_text = Some ''short'', p_page = Some 1, p_confidence = None\<rparr>]
        [[(''clause_type'', JStr ''termination'')]])"
  using create_text_chunks_nonempty_text [of "''Lease''" "\<lambda>v. []"
      "[\<lparr>p_text = Some ''short'', p_page = Some 1, p_confidence = None\<rparr>]"
      "[[(''clause_type'', JStr ''termination'')]]"]
  by (simp add: list_all_iff)

text \<open>
  Claim C3, as stated, fails: with the two short paragraphs among the first ten, a
  document with 3 clauses and 12 paragraphs, 10 of them longer than 100 characters, gets
  12 chunks and not 14.
\<close>

theorem create_text_chunks_scenario_counterexample:
  "length (replicate 3 ([] :: pydict)) = 3 \<and>
   length (replicate 2 \<lparr>p_text = Some ''short'', p_page = Some 1, p_confidence = None\<rparr> @
           replicate 10 \<lparr>p_text = Some (replicate 101 CHR ''a''), p_page = Some 1,
                          p_confidence = None\<rparr>) = 12 \<and>
   length (create_text_chunks (\<lambda>v. []) ''Lease text''
         (replicate 2 \<lparr>p_text = Some ''short'', p_page = Some 1, p_confidence = None\<rparr> @
          replicate 10 \<lparr>p_text = Some (replicate 101 CHR ''a''), p_page = Some 1,
                         p_confidence = None\<rparr>)
         (replicate 3 [])) = 12"
  by (simp add: length_create_text_chunks paragraph_text_def)

text \<open>
  Claim C3, amended. For a document with 3 clauses and 12 paragraphs of which 2 have a
  text of at most 100 characters, the chunker returns 1 + 3 + m chunks, where m is the
  number of paragraphs among the first ten, in document order, whose text is longer than
  100 characters: the first ten are taken first and the short ones among them are then
  left out. So it returns between 12 and 14 chunks, and 14 exactly when both short
  paragraphs are the last two.
\<close>

theorem create_text_chunks_scenario_count:
  assumes "length clauses = 3" and "length paragraphs = 12"
    and "length (filter (\<lambda>p. length (paragraph_text p) \<le> 100) paragraphs) = 2"
  shows "length (create_text_chunks repr raw_text paragraphs clauses) =
           1 + 3 + length (filter (\<lambda>p. length (paragraph_text p) > 100) (take 10 paragraphs)) \<and>
         12 \<le> length (create_text_chunks repr raw_text paragraphs clauses) \<and>
         length (create_text_chunks repr raw_text paragraphs clauses) \<le> 14 \<and>
         (length (create_text_chunks repr raw_text paragraphs clauses) = 14 \<longleftrightarrow>
            (\<forall>p \<in> set (take 10 paragraphs). length (paragraph_text p) > 100))"
proof -
  let ?long = "\<lambda>p. length (paragraph_text p) > 100"
  let ?short = "\<lambda>p. length (paragraph_text p) \<le> 100"
  let ?first = "take 10 paragraphs"
  have len: "length ?first = 10" using assms(2) by simp
  have split: "length (filter ?long ?first) + length (filter ?short ?first) = 10"
    using filter_split_count [of ?first] len by simp
  have "length (filter ?short ?first) \<le> 2"
    using short_in_prefix_le [of ?short 10 paragraphs] assms(3) by simp
  with split have lo: "8 \<le> length (filter ?long ?first)" by arith
  from split have hi: "length (filter ?long ?first) \<le> 10" by arith
  have all: "(length (filter ?long ?first) = 10) = (\<forall>p \<in> set ?first. ?long p)"
    using len filter_id_conv [of ?long ?first] length_filter_less [of _ ?first ?long]
    by (metis less_irrefl)
  show ?thesis
    using lo hi all by (simp add: length_create_text_chunks assms(1))
qed


theorem create_text_chunks_scenario_count_witness:
  "length (replicate 3 ([] :: pydict)) = 3 \<and>
   length (create_text_chunks (\<lambda>v. []) ''Lease text''
         (replicate 10 \<lparr>p_text = Some (replicate 101 CHR ''a''), p_page = Some 1,
                         p_confidence = None\<rparr> @
          replicate 2 \<lparr>p_text = Some ''short'', p_page = Some 1, p_confidence = None\<rparr>)
         (replicate 3 [])) = 14"
  using create_text_chunks_scenario_count [of "replicate 3 ([] :: pydict)"
      "replicate 10 \<lparr>p_text = Some (replicate 101 CHR ''a''), p_page = Some 1,
                      p_confidence = None\<rparr> @
       replicate 2 \<lparr>p_text = Some ''short'', p_page = Some 1, p_confidence = None\<rparr>"
      "\<lambda>v. []" "''Lease text''"]
  by (simp add: paragraph_text_def)

section \<open>Properties of the overall risk\<close>

lemma sum_risk_scores_eq:
  "sum_risk_scores clauses = Inr (sum_list (map (\<lambda>c. spec_score (ca_risk_level c)) clauses))"
proof (induction clauses)
  case Nil
  show ?case by simp
next
  case (Cons c cs)
  then show ?case by (cases "ca_risk_level c") (simp_all add: risk_scores_def)
qed

text \<open>
  Claim C10. \<open>calculate_overall_risk\<close> raises nothing and returns one of \<open>high\<close>, \<open>medium\<close>
  and \<open>low\<close>; it returns \<open>medium\<close> for the empty list; for a non-empty list, scoring high
  3, medium 2 and low 1, it returns \<open>high\<close> exactly when the average score is at least 2.5,
  \<open>medium\<close> exactly when the average is at least 1.5 and below 2.5, and \<open>low\<close> exactly when
  it is below 1.5.
\<close>

theorem calculate_overall_risk_by_average:
  "calculate_overall_risk [] = Inr ''medium'' \<and>
   calculate_overall_risk clauses \<in> {Inr ''high'', Inr ''medium'', Inr ''low''} \<and>
   (clauses \<noteq> [] \<longrightarrow>
      (calculate_overall_risk clauses = Inr ''high'' \<longleftrightarrow> spec_average_score clauses \<ge> 2.5) \<and>
      (calculate_overall_risk clauses = Inr ''medium'' \<longleftrightarrow>
         1.5 \<le> spec_average_score clauses \<and> spec_average_score clauses < 2.5) \<and>
      (calculate_overall_risk clauses = Inr ''low'' \<longleftrightarrow> spec_average_score clauses < 1.5))"
  by (simp add: calculate_overall_risk_def sum_risk_scores_eq spec_average_score_def Let_def)

theorem calculate_overall_risk_by_average_witness:
  "[example_clause HIGH, example_clause HIGH, example_clause LOW] \<noteq> [] \<and>
   calculate_overall_risk [example_clause HIGH, example_clause HIGH, example_clause LOW]
     = Inr ''medium'' \<and>
   1.5 \<le> spec_average_score [example_clause HIGH, example_clause HIGH, example_clause LOW] \<and>
   spec_average_score [example_clause HIGH, example_clause HIGH, example_clause LOW] < 2.5"
  using calculate_overall_risk_by_average
    [of "[example_clause HIGH, example_clause HIGH, example_clause LOW]"]
  by (simp add: spec_average_score_def example_clause_def)

section \<open>Properties of the clause classifier\<close>

text \<open>No member of \<open>ClauseType\<close> has the value \<open>other\<close> or the name \<open>OTHER\<close>.\<close>

lemma other_is_no_clause_type:
  "find (\<lambda>m. ClauseType_value m = ''other'') ClauseType_members = None"
  by (simp add: ClauseType_members_def)

lemma OTHER_is_no_member:
  "find (\<lambda>m. ClauseType_name m = ''OTHER'') ClauseType_members = None"
  by (simp add: ClauseType_members_def)

lemma fallback_clauses_raises: "fallback_clauses text = Inl AttributeError"
  by (simp add: fallback_clauses_def enum_attr_def OTHER_is_no_member)

lemma unknown_clause_type_raises:
  assumes "\<not> py_in (dict_get d ''clause_type'' (JStr ''other''))
               (map ClauseType_value ClauseType_members)"
  shows "classify_clause coerce i (JDict d) = Inl ValueError"
  using assms
  by (simp add: classify_clause_def json_get_def enum_call_def other_is_no_clause_type Let_def
      split: sum.splits)

text \<open>
  Claim C4 says that a clause type outside the enum is coerced to \<open>other\<close> and that every
  clause returned has a type of the enum. The code does replace the unlisted type by the
  string \<open>other\<close>, but \<open>ClauseType\<close> has no member of that value, so \<open>ClauseType("other")\<close>
  raises \<open>ValueError\<close>, which the handler of \<open>JSONDecodeError\<close> does not catch: for a
  well-formed output whose one clause has the type \<open>pets\<close>, the classifier raises.
\<close>

theorem segment_and_classify_clauses_unknown_type:
  "segment_and_classify_clauses
     (\<lambda>p. Inr ''response'')
     (\<lambda>s. Some (JDict [(''clauses'', JList [JDict
        [(''original_text'', JStr ''Tenant shall keep one cat at most.''),
         (''clause_type'', JStr ''pets''),
         (''plain_language'', JStr ''You may keep one cat.''),
         (''risk_level'', JStr ''low''),
         (''risk_reason'', JStr ''Common house rule.''),
         (''recommendations'', JList [JStr ''Ask about dogs.''])]])]))
     (\<lambda>v. None) ''Lease text'' [] = Inl ValueError"
  by (simp add: segment_and_classify_clauses_def classify_parsed_def json_get_def dict_get_def
      json_iter_def enumerate_eq_zip unknown_clause_type_raises py_in_def ClauseType_members_def)

text \<open>
  Claim C5 says that an output that cannot be parsed yields one synthetic clause of type
  \<open>other\<close> and that the classifier never raises on it. The handler of \<open>JSONDecodeError\<close>
  builds that clause with \<open>ClauseType.OTHER\<close>, a member the enum does not have, so the
  handler itself raises \<open>AttributeError\<close>, whatever the unparseable output is.
\<close>

theorem segment_and_classify_clauses_unparseable:
  "segment_and_classify_clauses (\<lambda>p. Inr ''I am sorry, I cannot analyse this document.'')
     (\<lambda>s. None) (\<lambda>v. None) ''Lease text'' [] = Inl AttributeError"
  by (simp add: segment_and_classify_clauses_def fallback_clauses_raises)

section \<open>Properties of the classification endpoint\<close>

text \<open>
  Claim C6, as stated, fails: the call on a document whose status is \<open>uploaded\<close> changes
  the stored document, whose status becomes \<open>failed\<close>.
\<close>

theorem classify_document_clauses_uploaded_counterexample:
  "d_processing_status example_document = Some ''uploaded'' \<and>
   example_documents ''doc1'' = Some example_document \<and>
   map_option d_processing_status
     (fst (classify_document_clauses example_services example_documents ''doc1'' None) ''doc1'')
     = Some (Some ''failed'') \<and>
   fst (classify_document_clauses example_services example_documents ''doc1'' None)
     \<noteq> example_documents"
proof -
  have after: "map_option d_processing_status
     (fst (classify_document_clauses example_services example_documents ''doc1'' None) ''doc1'')
     = Some (Some ''failed'')"
    by (simp add: classify_document_clauses_def classify_try_def update_document_def
      mark_failed_def example_documents_def example_document_def access_denied_def)
  have before:
    "map_option d_processing_status (example_documents ''doc1'') = Some (Some ''uploaded'')"
    by (simp add: example_documents_def example_document_def)
  from after before
  have "fst (classify_document_clauses example_services example_documents ''doc1'' None)
     \<noteq> example_documents" by auto
  then show ?thesis using after by (simp add: example_documents_def example_document_def)
qed

text \<open>
  Claim C6, amended. The classification endpoint, called by a permitted caller on a stored
  document whose status is \<open>uploaded\<close>, fails with the status code 400 (the document must
  complete OCR first) and leaves the clauses of the document as they were; its handler
  sets the processing status of that document to \<open>failed\<close>, stores the error message
  \<open>Clause classification failed\<close> and the time of the update, and changes no other field
  and no other document.
\<close>

theorem classify_document_clauses_uploaded:
  assumes "db document_id = Some doc_data"
    and "\<not> access_denied current_user doc_data"
    and "d_processing_status doc_data = Some (ProcessingStatus_value UPLOADED)"
  shows "classify_document_clauses sv db document_id current_user =
           (db(document_id \<mapsto>
                doc_data\<lparr> d_processing_status := Some (ProcessingStatus_value FAILED),
                           d_error_message := Some ''Clause classification failed'',
                           d_updated_at := Some (sv_now sv) \<rparr>),
            Inl (HTTPException 400 ''Document must complete OCR processing first''))"
  using assms
  by (simp add: classify_document_clauses_def classify_try_def update_document_def
      mark_failed_def)

theorem classify_document_clauses_uploaded_witness:
  "example_documents ''doc1'' = Some example_document \<and>
   \<not> access_denied None example_document \<and>
   d_processing_status example_document = Some (ProcessingStatus_value UPLOADED) \<and>
   snd (classify_document_clauses example_services example_documents ''doc1'' None) =
     Inl (HTTPException 400 ''Document must complete OCR processing first'') \<and>
   map_option d_clauses
     (fst (classify_document_clauses example_services example_documents ''doc1'' None) ''doc1'')
     = Some (d_clauses example_document)"
  using classify_document_clauses_uploaded
    [of example_documents "''doc1''" example_document None example_services]
  by (simp add: example_documents_def example_document_def access_denied_def)

section \<open>Properties of the retriever\<close>

lemma length_score_loop:
  "length (score_loop similarity q results es) =
     length results + length (filter has_vector es)"
  by (induction es arbitrary: results) (simp_all add: has_vector_def Let_def split: option.splits)

lemma scores_of_score_loop:
  "map sr_similarity (score_loop similarity q results es) =
     map sr_similarity results @
     map (\<lambda>e. similarity q (case ed_embedding e of None \<Rightarrow> [] | Some v \<Rightarrow> v))
       (filter has_vector es)"
  by (induction es arbitrary: results) (simp_all add: has_vector_def Let_def split: option.splits)

text \<open>On floats other than NaN, \<open><\<close> and \<open>\<le>\<close> are a total order.\<close>

lemma float_lt_le: "float_lt a b \<Longrightarrow> float_le a b"
  by (simp add: float_le_def)

lemma float_le_total: "a \<noteq> NaN \<Longrightarrow> b \<noteq> NaN \<Longrightarrow> \<not> float_lt b a \<Longrightarrow> float_le a b"
  by (cases a; cases b) (auto simp add: float_le_def)

lemma float_le_trans: "float_le a b \<Longrightarrow> float_le b c \<Longrightarrow> float_le a c"
  by (cases a; cases b; cases c) (auto simp add: float_le_def)

lemma set_insert_by_key: "set (insert_by_key key x ys) = insert x (set ys)"
  by (induction ys) auto

lemma sorted_insert_by_key:
  assumes "sorted_wrt (\<lambda>a b. float_le (key a) (key b)) ys"
    and "key x \<noteq> NaN" and "\<forall>y \<in> set ys. key y \<noteq> NaN"
  shows "sorted_wrt (\<lambda>a b. float_le (key a) (key b)) (insert_by_key key x ys)"
  using assms
proof (induction ys)
  case Nil
  then show ?case by simp
next
  case (Cons y ys)
  show ?case
  proof (cases "float_lt (key y) (key x)")
    case True
    have "sorted_wrt (\<lambda>a b. float_le (key a) (key b)) (insert_by_key key x ys)"
      using Cons by simp
    moreover have "\<forall>z \<in> set (insert_by_key key x ys). float_le (key y) (key z)"
      using Cons.prems(1) True by (simp add: set_insert_by_key float_lt_le)
    ultimately show ?thesis using True by simp
  next
    case False
    have xy: "float_le (key x) (key y)"
      using False Cons.prems(2,3) by (simp add: float_le_total)
    have "\<forall>z \<in> set ys. float_le (key x) (key z)"
      using Cons.prems(1) xy float_le_trans by auto
    then show ?thesis using False xy Cons.prems(1) by simp
  qed
qed

lemma set_stable_sort_by_key: "set (stable_sort_by_key key xs) = set xs"
  by (induction xs) (simp_all add: stable_sort_by_key_def set_insert_by_key)

lemma length_insert_by_key: "length (insert_by_key key x ys) = Suc (length ys)"
  by (induction ys) simp_all

lemma length_stable_sort_by_key: "length (stable_sort_by_key key xs) = length xs"
  by (induction xs) (simp_all add: stable_sort_by_key_def length_insert_by_key)

lemma sorted_stable_sort_by_key:
  assumes "\<forall>x \<in> set xs. key x \<noteq> NaN"
  shows "sorted_wrt (\<lambda>a b. float_le (key a) (key b)) (stable_sort_by_key key xs)"
  using assms
proof (induction xs)
  case Nil
  then show ?case by (simp add: stable_sort_by_key_def)
next
  case (Cons x xs)
  have "sorted_wrt (\<lambda>a b. float_le (key a) (key b))
          (insert_by_key key x (stable_sort_by_key key xs))"
    using Cons by (intro sorted_insert_by_key) (simp_all add: set_stable_sort_by_key)
  then show ?case by (simp add: stable_sort_by_key_def)
qed

lemma sorted_sort_reverse:
  assumes "NaN \<notin> set (map key xs)"
  shows "sorted_wrt (\<lambda>a b. float_le b a) (map key (sort_reverse nan_order key xs))"
proof -
  have "\<forall>x \<in> set (rev xs). key x \<noteq> NaN" using assms by force
  then have "sorted_wrt (\<lambda>a b. float_le (key a) (key b)) (stable_sort_by_key key (rev xs))"
    by (rule sorted_stable_sort_by_key)
  then have "sorted_wrt (\<lambda>a b. float_le (key b) (key a))
               (rev (stable_sort_by_key key (rev xs)))"
    by (simp add: sorted_wrt_rev)
  then show ?thesis using assms by (simp add: sort_reverse_def sorted_wrt_map)
qed

lemma length_sort_reverse: "length (sort_reverse nan_order key xs) = length xs"
proof (cases "NaN \<in> set (map key xs) \<and> sort (nan_order (map key xs)) = [0..<length xs]")
  case True
  then have "length (sort (nan_order (map key xs))) = length xs" by simp
  then have "length (nan_order (map key xs)) = length xs" by (simp only: length_sort)
  then show ?thesis using True by (simp add: sort_reverse_def Let_def)
next
  case False
  then show ?thesis by (auto simp add: sort_reverse_def Let_def length_stable_sort_by_key)
qed

lemma set_sort_reverse: "set (sort_reverse nan_order key xs) \<subseteq> set xs"
proof (cases "NaN \<in> set (map key xs) \<and> sort (nan_order (map key xs)) = [0..<length xs]")
  case True
  then have "set (nan_order (map key xs)) = set [0..<length xs]"
    by (metis set_sort)
  then show ?thesis using True by (auto simp add: sort_reverse_def Let_def)
next
  case False
  then show ?thesis by (auto simp add: sort_reverse_def Let_def set_stable_sort_by_key)
qed

text \<open>
  The proviso on NaN is needed: if the sort leaves the scores \<open>[0.0, nan, 1.0]\<close> as they
  are, the result is not in descending order.
\<close>

lemma sort_reverse_nan_unsorted:
  "sort_reverse (\<lambda>keys. [0..<length keys]) (\<lambda>x. x) [Finite 0, NaN, Finite 1] =
     [Finite 0, NaN, Finite 1] \<and>
   \<not> sorted_wrt (\<lambda>a b. float_le b a) [Finite 0, NaN, Finite 1]"
  by (simp add: sort_reverse_def float_le_def upt_rec)

lemma sorted_slice_to:
  assumes "sorted_wrt (\<lambda>a b. float_le b a) (map key xs)" and "0 \<le> k"
  shows "sorted_wrt (\<lambda>a b. float_le b a) (map key (slice_to xs k))"
proof -
  have "map key (slice_to xs k) = take (nat k) (map key xs)"
    using assms(2) by (simp add: slice_to_def take_map)
  then show ?thesis using assms(1) by simp
qed

lemma length_slice_to:
  "0 \<le> k \<Longrightarrow> int (length (slice_to xs k)) = min k (int (length xs))"
  by (auto simp add: slice_to_def min_def)

text \<open>
  Claim C2, amended. For a stored document that the caller may access: if the
  knowledge-base flag of the document is not set, the search fails with the status code
  400 (knowledge base not created); if the flag is set, the embedding of the query
  succeeds and the limit \<open>k\<close> is not negative, the search returns results whose number is
  the minimum of \<open>k\<close> and the number of chunks stored for the document with a non-empty
  vector, and, provided that no similarity score of these chunks is NaN, the results are
  in descending order of score.
\<close>

theorem search_knowledge_base_top_k:
  assumes "db document_id = Some doc_data"
    and "\<not> access_denied current_user doc_data"
  shows
    "(d_knowledge_base_created doc_data \<noteq> Some True \<longrightarrow>
        search_knowledge_base get_embeddings similarity nan_order exc_str db embeddings
          document_id query limit current_user =
        Inl (HTTPException 400 ''Knowledge base not created for this document'')) \<and>
     (d_knowledge_base_created doc_data = Some True \<and> get_embeddings query = Inr query_vector \<and>
      0 \<le> limit \<longrightarrow>
        (\<exists>response.
           search_knowledge_base get_embeddings similarity nan_order exc_str db embeddings
             document_id query limit current_user = Inr response \<and>
           int (length (sp_results response)) =
             min limit (int (chunks_with_vector embeddings document_id)) \<and>
           (NaN \<notin> set (stored_scores similarity query_vector embeddings document_id) \<longrightarrow>
              sorted_wrt (\<lambda>a b. float_le b a) (map sr_similarity (sp_results response)))))"
proof (intro conjI impI)
  assume "d_knowledge_base_created doc_data \<noteq> Some True"
  then show "search_knowledge_base get_embeddings similarity nan_order exc_str db embeddings
      document_id query limit current_user =
      Inl (HTTPException 400 ''Knowledge base not created for this document'')"
    using assms by (simp add: search_knowledge_base_def search_try_def)
next
  assume h: "d_knowledge_base_created doc_data = Some True \<and>
    get_embeddings query = Inr query_vector \<and> 0 \<le> limit"
  let ?stream = "filter (\<lambda>e. ed_document_id e = document_id) embeddings"
  let ?scored = "score_loop similarity query_vector [] ?stream"
  let ?sorted = "sort_reverse nan_order sr_similarity ?scored"
  let ?response = "\<lparr> sp_query = query, sp_results = slice_to ?sorted limit,
                      sp_total_searched = length ?sorted \<rparr>"
  have run: "search_knowledge_base get_embeddings similarity nan_order exc_str db embeddings
      document_id query limit current_user = Inr ?response"
    using assms h by (simp add: search_knowledge_base_def search_try_def Let_def)
  have scores: "map sr_similarity ?scored =
      stored_scores similarity query_vector embeddings document_id"
    by (simp add: scores_of_score_loop stored_scores_def)
  have ordered: "sorted_wrt (\<lambda>a b. float_le b a) (map sr_similarity (slice_to ?sorted limit))"
    if "NaN \<notin> set (stored_scores similarity query_vector embeddings document_id)"
  proof -
    from that have "NaN \<notin> set (map sr_similarity ?scored)" unfolding scores .
    then have "sorted_wrt (\<lambda>a b. float_le b a) (map sr_similarity ?sorted)"
      by (rule sorted_sort_reverse)
    then show ?thesis using h by (intro sorted_slice_to) simp_all
  qed
  have "length ?sorted = chunks_with_vector embeddings document_id"
    by (simp add: length_sort_reverse length_score_loop chunks_with_vector_def)
  then have count: "int (length (slice_to ?sorted limit)) =
      min limit (int (chunks_with_vector embeddings document_id))"
    using h by (simp add: length_slice_to)
  show "\<exists>response.
      search_knowledge_base get_embeddings similarity nan_order exc_str db embeddings
        document_id query limit current_user = Inr response \<and>
      int (length (sp_results response)) =
        min limit (int (chunks_with_vector embeddings document_id)) \<and>
      (NaN \<notin> set (stored_scores similarity query_vector embeddings document_id) \<longrightarrow>
         sorted_wrt (\<lambda>a b. float_le b a) (map sr_similarity (sp_results response)))"
    using run ordered count by simp
qed

lemma example_search:
  "search_knowledge_base (\<lambda>q. Inr [Finite 1]) example_similarity (\<lambda>keys. []) (\<lambda>e. [])
       example_documents example_embeddings ''doc1'' ''When is rent due?'' limit None =
     Inr \<lparr> sp_query = ''When is rent due?'',
           sp_results = slice_to
             [\<lparr> sr_chunk_id = ''doc1_chunk_1'',
                 sr_text = ''Rent is due on the first day of each month.'',
                 sr_chunk_type = ''paragraph'', sr_metadata = [],
                 sr_similarity = Finite 3 \<rparr>,
              \<lparr> sr_chunk_id = ''doc1_chunk_2'',
                 sr_text = ''Rent is due on the first day of each month.'',
                 sr_chunk_type = ''paragraph'', sr_metadata = [],
                 sr_similarity = Finite 2 \<rparr>,
              \<lparr> sr_chunk_id = ''doc1_chunk_0'',
                 sr_text = ''Rent is due on the first day of each month.'',
                 sr_chunk_type = ''paragraph'', sr_metadata = [],
                 sr_similarity = Finite 1 \<rparr>] limit,
           sp_total_searched = 3 \<rparr>"
  by (simp add: search_knowledge_base_def search_try_def example_documents_def
      example_document_def access_denied_def example_embeddings_def example_embedding_def
      example_similarity_def sort_reverse_def stable_sort_by_key_def Let_def)

text \<open>
  Claim C2, as stated, fails for a negative limit: \<open>results[:limit]\<close> then drops results
  from the end. With three stored chunks, none of whose scores is NaN, and the limit
  \<open>-1\<close> the search returns two results.
\<close>

theorem search_knowledge_base_negative_limit_counterexample:
  "d_knowledge_base_created example_document = Some True \<and>
   chunks_with_vector example_embeddings ''doc1'' = 3 \<and>
   map_sum id (\<lambda>r. map sr_similarity (sp_results r))
     (search_knowledge_base (\<lambda>q. Inr [Finite 1]) example_similarity (\<lambda>keys. []) (\<lambda>e. [])
        example_documents example_embeddings ''doc1'' ''When is rent due?'' (- 1) None)
     = Inr [Finite 3, Finite 2] \<and>
   min (- 1) (int (chunks_with_vector example_embeddings ''doc1'')) \<noteq> 2"
  unfolding example_search
  by (simp add: slice_to_def chunks_with_vector_def example_embeddings_def
      example_embedding_def has_vector_def example_document_def)

theorem search_knowledge_base_top_k_witness:
  "example_documents ''doc1'' = Some example_document \<and>
   \<not> access_denied None example_document \<and>
   d_knowledge_base_created example_document = Some True \<and>
   NaN \<notin> set (stored_scores example_similarity [Finite 1] example_embeddings ''doc1'') \<and>
   map_sum id (\<lambda>r. map sr_similarity (sp_results r))
     (search_knowledge_base (\<lambda>q. Inr [Finite 1]) example_similarity (\<lambda>keys. []) (\<lambda>e. [])
        example_documents example_embeddings ''doc1'' ''When is rent due?'' 2 None)
     = Inr [Finite 3, Finite 2]"
  using search_knowledge_base_top_k
    [of example_documents "''doc1''" example_document None "\<lambda>q. Inr [Finite 1]"
        example_similarity "\<lambda>keys. []" "\<lambda>e. []" example_embeddings "''When is rent due?''" 2
        "[Finite 1]"]
  unfolding example_search
  by (simp add: slice_to_def example_documents_def example_document_def access_denied_def
      stored_scores_def example_embeddings_def example_embedding_def has_vector_def
      example_similarity_def)

section \<open>Properties of the QA orchestrator\<close>

lemma clamp_NaN: "py_min (py_max NaN (Finite 0)) (Finite 1) = NaN"
  by (simp add: py_min_def py_max_def float_gt_def)

lemma NaN_outside: "\<not> in_unit_interval NaN"
  by (simp add: in_unit_interval_def float_le_def)

text \<open>
  Claim C7 says that the confidence returned always lies in \<open>[0.0, 1.0]\<close>. The code clamps
  with \<open>min(max(confidence, 0.0), 1.0)\<close>, which lets NaN through, since every comparison
  with NaN is false: for the output \<open>{"answer": ..., "confidence": NaN}\<close>, which
  \<open>json.loads\<close> accepts, the confidence returned is NaN.
\<close>

theorem generate_answer_NaN_confidence:
  "map_sum id ad_confidence
     (generate_answer (\<lambda>p. Inr ''response'')
        (\<lambda>s. Some (JDict [(''answer'', JStr ''Yes, with the consent of the landlord.''),
                           (''confidence'', JFloat NaN)]))
        (\<lambda>s. None) (\<lambda>v. []) (\<lambda>s :: int. []) ''May I sublet?'' ''rental_agreement'' [] [] [])
     = Inr NaN \<and>
   \<not> in_unit_interval NaN"
  by (simp add: generate_answer_def context_parts_def answer_parsed_def json_get_def
      dict_get_def py_float_def json_iadd_str_def clamp_NaN NaN_outside Let_def)

section \<open>What holds of the classifier and of the QA answer\<close>

text \<open>
  Whenever the classifier returns, the clauses it returns are within the bounds of the
  specification: the type and the risk level are members of their enums, the three texts
  are at most 2000, 500 and 300 characters long, there are at most 3 recommendations, and
  the confidence score is 0.8.
\<close>

lemma validate_sliced_str:
  assumes "json_slice_to v n = Inr w" and "validate_str coerce w = Inr s"
  shows "length s \<le> n"
  using assms
  by (cases v) (auto simp add: json_slice_to_def validate_str_def)

lemma length_validate_strs:
  "validate_strs coerce vs = Inr ss \<Longrightarrow> length ss = length vs"
  by (induction vs arbitrary: ss) (auto split: sum.splits)

lemma validate_sliced_list:
  assumes "json_slice_to v n = Inr w" and "validate_str_list coerce w = Inr ss"
  shows "length ss \<le> n"
proof (cases v)
  case (JList xs)
  with assms have "validate_strs coerce (take n xs) = Inr ss"
    by (auto simp add: json_slice_to_def validate_str_list_def)
  then have "length ss = length (take n xs)" by (rule length_validate_strs)
  then show ?thesis by simp
qed (use assms in \<open>auto simp add: json_slice_to_def validate_str_list_def\<close>)

lemma all_clause_types: "ct \<in> set ClauseType_members"
  by (cases ct) (simp_all add: ClauseType_members_def)

lemma all_risk_levels: "rl \<in> set RiskLevel_members"
  by (cases rl) (simp_all add: RiskLevel_members_def)


lemma case_sum_Inr_iff:
  "(case m of Inl e \<Rightarrow> Inl e | Inr v \<Rightarrow> f v) = Inr c \<longleftrightarrow> (\<exists>v. m = Inr v \<and> f v = Inr c)"
  by (cases m) auto

lemma classify_clause_within_bounds:
  assumes "classify_clause coerce i clause_data = Inr c"
  shows "clause_within_bounds c"
proof -
  from assms obtain ct ot0 ot pl0 pl rl rr0 rr rec0 recs original_text plain_language
      risk_reason recommendations
    where ot: "json_slice_to ot0 2000 = Inr ot" "validate_str coerce ot = Inr original_text"
      and pl: "json_slice_to pl0 500 = Inr pl" "validate_str coerce pl = Inr plain_language"
      and rr: "json_slice_to rr0 300 = Inr rr" "validate_str coerce rr = Inr risk_reason"
      and recs: "json_slice_to rec0 3 = Inr recs"
        "validate_str_list coerce recs = Inr recommendations"
      and c: "c = \<lparr> ca_id = ''clause_'' @ str_nat (i + 1),
              ca_clause_type = ct,
              ca_original_text = original_text,
              ca_plain_language = plain_language,
              ca_risk_level = rl,
              ca_risk_reason = risk_reason,
              ca_recommendations = recommendations,
              ca_citations = [],
              ca_confidence_score = Some (Finite 0.8),
              ca_start_position = None,
              ca_end_position = None \<rparr>"
    unfolding classify_clause_def Let_def case_sum_Inr_iff
    by (elim exE conjE) (simp only: sum.inject, blast)
  show ?thesis
    using validate_sliced_str [OF ot] validate_sliced_str [OF pl] validate_sliced_str [OF rr]
      validate_sliced_list [OF recs]
    by (simp add: c clause_within_bounds_def all_clause_types all_risk_levels)
qed


lemma classify_loop_within_bounds:
  assumes "classify_loop coerce acc items = Inr clauses"
    and "\<forall>c \<in> set acc. clause_within_bounds c"
  shows "\<forall>c \<in> set clauses. clause_within_bounds c"
  using assms
proof (induction coerce acc items rule: classify_loop.induct)
  case (1 coerce clauses)
  then show ?case by simp
next
  case (2 coerce acc i clause_data rest)
  from "2.prems"(1) obtain clause
    where clause: "classify_clause coerce i clause_data = Inr clause"
      and rest: "classify_loop coerce (acc @ [clause]) rest = Inr clauses"
    by (auto simp add: case_sum_Inr_iff)
  have "\<forall>c \<in> set (acc @ [clause]). clause_within_bounds c"
    using "2.prems"(2) classify_clause_within_bounds [OF clause] by simp
  with "2.IH" [OF clause rest] show ?case .
qed

lemma segment_and_classify_clauses_within_bounds:
  assumes "segment_and_classify_clauses model loads coerce text paragraphs = Inr clauses"
  shows "\<forall>c \<in> set clauses. clause_within_bounds c"
proof -
  from assms obtain result where "classify_parsed coerce result = Inr clauses"
    by (auto simp add: segment_and_classify_clauses_def fallback_clauses_raises
        split: sum.splits option.splits)
  then obtain items where "classify_loop coerce [] (enumerate 0 items) = Inr clauses"
    by (auto simp add: classify_parsed_def case_sum_Inr_iff)
  then show ?thesis
    using classify_loop_within_bounds [of coerce "[]" "enumerate 0 items" clauses] by simp
qed

text \<open>
  Whenever \<open>generate_answer\<close> returns, on each of its three paths, an answer that is a
  string contains the disclaimer, and the confidence is in \<open>[0.0, 1.0]\<close> unless it is NaN.
\<close>

lemma clamp_in_unit_interval:
  assumes "c \<noteq> NaN"
  shows "in_unit_interval (py_min (py_max c (Finite 0)) (Finite 1))"
  using assms
  by (cases c) (auto simp add: in_unit_interval_def py_min_def py_max_def float_gt_def
      float_le_def)

lemma answer_parsed_confidence:
  assumes "answer_parsed float_of_str sources legal_context result = Inr a"
  shows "ad_confidence a = NaN \<or> in_unit_interval (ad_confidence a)"
proof -
  from assms obtain c where "ad_confidence a = py_min (py_max c (Finite 0)) (Finite 1)"
    by (auto simp add: answer_parsed_def case_sum_Inr_iff)
  then show ?thesis
    using clamp_in_unit_interval [of c]
    by (cases "c = NaN") (simp_all add: py_min_def py_max_def float_gt_def)
qed

lemma answer_parsed_disclaimer:
  assumes "answer_parsed float_of_str sources legal_context result = Inr a"
    and "ad_answer a = JStr s"
  shows "sublist disclaimer s"
proof -
  from assms(1) obtain answer0 where
    "json_iadd_str answer0
       (nl @ nl @ disclaimer @ '' Please consult with a qualified attorney for legal decisions.'')
     = Inr (ad_answer a)"
    by (auto simp add: answer_parsed_def case_sum_Inr_iff)
  with assms(2) obtain t where
    "s = t @ nl @ nl @ disclaimer @ '' Please consult with a qualified attorney for legal decisions.''"
    by (cases answer0) (auto simp add: json_iadd_str_def)
  then have "s = (t @ nl @ nl) @ disclaimer @
      '' Please consult with a qualified attorney for legal decisions.''" by simp
  then show ?thesis by (simp only: sublist_appendI)
qed

lemma fallback_confidence:
  "in_unit_interval (ad_confidence (decode_error_answer sources)) \<and>
   in_unit_interval (ad_confidence (other_error_answer document_type))"
  by (simp add: decode_error_answer_def other_error_answer_def in_unit_interval_def
      float_le_def)

lemma sublist_after_two: "sublist d (a @ b @ c @ d)"
proof -
  have "a @ b @ c @ d = (a @ b @ c) @ d" by simp
  then show ?thesis by (simp only: sublist_append_leftI)
qed

lemma fallback_disclaimer:
  "(ad_answer (decode_error_answer sources) = JStr s \<longrightarrow> sublist disclaimer s) \<and>
   (ad_answer (other_error_answer document_type) = JStr s \<longrightarrow> sublist disclaimer s)"
  by (auto simp add: decode_error_answer_def other_error_answer_def sublist_after_two)

lemma generate_answer_disclaimer_and_confidence:
  assumes "generate_answer model loads float_of_str repr fmt question document_type
             document_context legal_context clauses = Inr a"
  shows "(ad_confidence a = NaN \<or> in_unit_interval (ad_confidence a)) \<and>
         (\<forall>s. ad_answer a = JStr s \<longrightarrow> sublist disclaimer s)"
proof (cases "context_parts repr document_context legal_context clauses")
  case (Inl e)
  with assms show ?thesis by (simp add: generate_answer_def)
next
  case parts: (Inr parts)
  let ?sources = "answer_sources repr fmt document_context legal_context"
  let ?prompt = "Answer_prompt (replace_underscores document_type) (join nl parts) question"
  show ?thesis
  proof (cases "model ?prompt")
    case (Inl e)
    with assms parts have "a = other_error_answer document_type"
      by (simp add: generate_answer_def Let_def)
    then show ?thesis using fallback_confidence fallback_disclaimer by simp
  next
    case response: (Inr response_text)
    show ?thesis
    proof (cases "loads response_text")
      case None
      with assms parts response have "a = decode_error_answer ?sources"
        by (simp add: generate_answer_def Let_def)
      then show ?thesis using fallback_confidence fallback_disclaimer by simp
    next
      case result: (Some result)
      show ?thesis
      proof (cases "answer_parsed float_of_str ?sources legal_context result")
        case (Inl e)
        with assms parts response result have "a = other_error_answer document_type"
          by (simp add: generate_answer_def Let_def)
        then show ?thesis using fallback_confidence fallback_disclaimer by simp
      next
        case (Inr b)
        with assms parts response result
        have "answer_parsed float_of_str ?sources legal_context result = Inr a"
          by (simp add: generate_answer_def Let_def)
        then show ?thesis
          using answer_parsed_confidence answer_parsed_disclaimer by blast
      qed
    qed
  qed
qed

section \<open>Properties of the knowledge-base build\<close>

text \<open>
  The build rejects a document without text before it calls the chunker, and leaves the
  store as it was.
\<close>

lemma knowledge_base_no_text:
  assumes "st_documents st document_id = Some doc_data"
    and "\<not> access_denied current_user doc_data"
    and "(case d_extracted_data doc_data of None \<Rightarrow> []
          | Some x \<Rightarrow> (case ex_raw_text x of None \<Rightarrow> [] | Some t \<Rightarrow> t)) = []"
  shows "create_knowledge_base get_embeddings repr exc_str now st document_id current_user =
           (st, Inl (HTTPException 400 ''No text found in document''))"
  using assms
  by (simp add: create_knowledge_base_def knowledge_base_try_def Let_def)

text \<open>
  When the full-document chunk is embedded, the build succeeds and the collection of
  documents is left as it was: the update after the commit is made through \<open>doc_ref\<close>,
  which the loop over the batch has assigned to the reference of the last stored chunk.
\<close>

lemma embed_loop_texts:
  "set (map ed_text (embed_loop get_embeddings document_id now acc ichunks)) \<subseteq>
     set (map ed_text acc) \<union> set (map (\<lambda>ic. ch_text (snd ic)) ichunks)"
proof (induction get_embeddings document_id now acc ichunks rule: embed_loop.induct)
  case (1 get_embeddings document_id now embeddings_data)
  then show ?case by simp
next
  case (2 get_embeddings document_id now embeddings_data i chunk rest)
  then show ?case by (cases "get_embeddings (ch_text chunk)") auto
qed

lemma embed_loop_grows:
  "length acc \<le> length (embed_loop get_embeddings document_id now acc ichunks)"
proof (induction get_embeddings document_id now acc ichunks rule: embed_loop.induct)
  case (1 get_embeddings document_id now embeddings_data)
  then show ?case by simp
next
  case (2 get_embeddings document_id now embeddings_data i chunk rest)
  then show ?case by (cases "get_embeddings (ch_text chunk)") auto
qed

lemma set_embedding_ids:
  "ed_chunk_id ` set (set_embedding es e) = insert (ed_chunk_id e) (ed_chunk_id ` set es)"
  by (induction es) auto

lemma foldl_set_embedding_ids:
  "ed_chunk_id ` set (foldl set_embedding es new) = ed_chunk_id ` set es \<union> ed_chunk_id ` set new"
  by (induction new arbitrary: es) (auto simp add: set_embedding_ids)

lemma update_last_embedding:
  assumes "new \<noteq> []"
  shows "\<exists>es'. update_embedding (foldl set_embedding es new) (ed_chunk_id (last new)) changes
           = Inr es'"
proof -
  have "last new \<in> set new" using assms by simp
  then have "ed_chunk_id (last new) \<in> ed_chunk_id ` set (foldl set_embedding es new)"
    by (simp add: foldl_set_embedding_ids)
  then show ?thesis by (simp add: update_embedding_def)
qed

lemma knowledge_base_flag_not_set:
  assumes "st_documents st document_id = Some doc_data"
    and "\<not> access_denied current_user doc_data"
    and "d_extracted_data doc_data = Some x" and "ex_raw_text x = Some raw_text"
    and "raw_text \<noteq> []"
    and "get_embeddings (take 2000 raw_text) = Inr v"
  shows "\<exists>st' response.
           create_knowledge_base get_embeddings repr exc_str now st document_id current_user
             = (st', Inr response) \<and>
           kb_success response \<and> 0 < kb_chunks_created response \<and>
           st_documents st' = st_documents st"
proof -
  let ?paragraphs = "case ex_paragraphs x of None \<Rightarrow> [] | Some ps \<Rightarrow> ps"
  let ?clauses = "case d_clauses doc_data of None \<Rightarrow> [] | Some cs \<Rightarrow> cs"
  let ?chunks = "create_text_chunks repr raw_text ?paragraphs ?clauses"
  let ?new = "embed_loop get_embeddings document_id now [] (enumerate 0 ?chunks)"
  obtain rest where chunks: "enumerate 0 ?chunks = (0, document_chunk raw_text) # rest"
    by (simp add: create_text_chunks_eq)
  have first: "get_embeddings (ch_text (document_chunk raw_text)) = Inr v"
    using assms(6) by (simp add: document_chunk_def)
  obtain e where "?new = embed_loop get_embeddings document_id now ([] @ [e]) rest"
    unfolding chunks by (simp add: first)
  then have "1 \<le> length ?new"
    using embed_loop_grows [of "[] @ [e]" get_embeddings document_id now rest] by simp
  then have new: "?new \<noteq> []" by auto
  from update_last_embedding [OF new] obtain es' where
    es': "update_embedding (foldl set_embedding (st_embeddings st) ?new)
            (ed_chunk_id (last ?new))
            (\<lambda>e. e\<lparr> ed_knowledge_base_created := Some True,
                     ed_embeddings_count := Some (length ?new),
                     ed_updated_at := Some now \<rparr>) = Inr es'"
    by blast
  show ?thesis
    using assms(1-5) new es' \<open>1 \<le> length ?new\<close>
    by (simp add: create_knowledge_base_def knowledge_base_try_def Let_def)
qed

end
